theory Spec2Isabelle
  imports Complex_Main
begin

section \<open>JavaScript values\<close>

text \<open>
  The lead-intake workers of this repository are Cloudflare Worker scripts. Each one is a
  single asynchronous handler; everything it awaits is sequential, so a run is modelled by
  explicit state passing over a \<open>world\<close>, with every rejected promise and thrown
  exception as an \<open>Inl\<close> result.
\<close>

datatype js_error = TypeError | SyntaxError | NetworkError | StoreError

text \<open>
  Values as the handlers see them. \<open>JNum\<close> carries the value of a number that
  \<open>JSON.parse\<close> produced (never NaN; the only falsy one is zero). \<open>JObj\<close> lists the
  own properties of an object in insertion order, keys distinct. \<open>JFile\<close> is the
  \<open>File\<close> object that \<open>FormData.get\<close> returns for a file field.
\<close>

datatype jsval =
    JUndefined
  | JNull
  | JBool bool
  | JNum real
  | JStr string
  | JArr "jsval list"
  | JObj "(string \<times> jsval) list"
  | JFile string

text \<open>The truth value of a value in a condition (\<open>!v\<close>, \<open>v ? a : b\<close>).\<close>

fun truthy :: "jsval \<Rightarrow> bool" where
  "truthy JUndefined = False"
| "truthy JNull = False"
| "truthy (JBool b) = b"
| "truthy (JNum n) = (n \<noteq> 0)"
| "truthy (JStr s) = (s \<noteq> [])"
| "truthy (JArr xs) = True"
| "truthy (JObj kvs) = True"
| "truthy (JFile n) = True"

text \<open>
  The property access \<open>v.success\<close>: a TypeError on \<open>null\<close> and \<open>undefined\<close>, the
  own property of an object, and \<open>undefined\<close> on every other value (no prototype of
  these values has a property of that name).
\<close>

fun prop_success :: "jsval \<Rightarrow> js_error + jsval" where
  "prop_success JUndefined = Inl TypeError"
| "prop_success JNull = Inl TypeError"
| "prop_success (JObj kvs) =
     Inr (case map_of kvs ''success'' of None \<Rightarrow> JUndefined | Some v \<Rightarrow> v)"
| "prop_success (JBool b) = Inr JUndefined"
| "prop_success (JNum n) = Inr JUndefined"
| "prop_success (JStr s) = Inr JUndefined"
| "prop_success (JArr xs) = Inr JUndefined"
| "prop_success (JFile n) = Inr JUndefined"

text \<open>
  A string that the code builds: a literal, or \<open>JSON.stringify(v)\<close>, whose argument is
  kept and whose serialisation is left symbolic.
\<close>

datatype payload = Plain string | Stringify jsval

section \<open>Form data, requests and responses\<close>

datatype form_value = FormString string | FormFile string

type_synonym form = "(string \<times> form_value) list"

text \<open>\<open>formData.get(name)\<close>: the first entry of that name, or \<open>null\<close> (here \<open>None\<close>).\<close>

definition form_get :: "form \<Rightarrow> string \<Rightarrow> form_value option" where
  "form_get fd name = map_of fd name"

text \<open>A form value inside a template literal, \<open>`${v}`\<close>.\<close>

fun template :: "form_value option \<Rightarrow> string" where
  "template None = ''null''"
| "template (Some (FormString s)) = s"
| "template (Some (FormFile n)) = ''[object File]''"

text \<open>A form value as a property value of an object literal.\<close>

fun js_of_form :: "form_value option \<Rightarrow> jsval" where
  "js_of_form None = JNull"
| "js_of_form (Some (FormString s)) = JStr s"
| "js_of_form (Some (FormFile n)) = JFile n"

text \<open>
  An inbound request: its method, and what \<open>await request.formData()\<close> gives, which
  rejects when the body is not form data.
\<close>

record request =
  "method" :: string
  formData :: "js_error + form"

text \<open>A response: its status, its body (\<open>None\<close> for \<open>null\<close>) and the headers the handler sets.\<close>

record response =
  status :: nat
  body :: "payload option"
  headers :: "(string \<times> string) list"

text \<open>\<open>new Response(body, {status, headers})\<close>; the status defaults to 200.\<close>

definition new_Response :: "payload option \<Rightarrow> nat option \<Rightarrow> (string \<times> string) list \<Rightarrow> response" where
  "new_Response b st hs =
     \<lparr>status = (case st of None \<Rightarrow> 200 | Some s \<Rightarrow> s), body = b, headers = hs\<rparr>"

section \<open>The world outside the handler\<close>

text \<open>The request a handler sends with the global \<open>fetch\<close>.\<close>

record outbound =
  url :: string
  out_method :: string
  out_body :: payload
  out_headers :: "(string \<times> string) list"

text \<open>
  What the remote service does with it: the promise rejects, or it resolves to a reply
  whose \<open>.json()\<close> either rejects or gives a value.
\<close>

type_synonym reply = "js_error + jsval"

datatype fetch_outcome = Rejects js_error | Resolves reply

definition reply_json :: "reply \<Rightarrow> js_error + jsval" where
  "reply_json r = r"

datatype console_arg = Str string | Val jsval | Json jsval | Err js_error

datatype event =
    Outbound outbound
  | KvPut string payload
  | Console string "console_arg list"

text \<open>\<open>crypto.randomUUID()\<close> returns a string of 36 characters.\<close>

typedef uuid = "{s :: string. length s = 36}"
  by (rule exI [of _ "replicate 36 (CHR ''0'')"]) simp

text \<open>
  The world: the two bindings of \<open>env\<close> (the secret and the key-value namespace, a map
  from keys to stored values), the verification service and the namespace's \<open>put\<close> as
  functions of what they are sent, the platform's supply of UUIDs with the number already
  drawn, the clock as \<open>new Date().toISOString()\<close> reads it, and the trace of every
  outbound call, store write and console line issued so far, oldest first.
\<close>

record world =
  TURNSTILE_SECRET :: string
  WAITLIST_STORAGE :: "string \<rightharpoonup> payload"
  siteverify :: "outbound \<Rightarrow> fetch_outcome"
  put_rejects :: "string \<Rightarrow> payload \<Rightarrow> bool"
  uuid_supply :: "nat \<Rightarrow> uuid"
  uuids_drawn :: nat
  clock :: string
  trace :: "event list"

definition js_fetch :: "world \<Rightarrow> outbound \<Rightarrow> (js_error + reply) \<times> world" where
  "js_fetch w ob =
     (case siteverify w ob of Rejects err \<Rightarrow> Inl err | Resolves r \<Rightarrow> Inr r,
      w\<lparr>trace := trace w @ [Outbound ob]\<rparr>)"

definition kv_put :: "world \<Rightarrow> string \<Rightarrow> payload \<Rightarrow> (js_error + unit) \<times> world" where
  "kv_put w k v =
     (let w' = w\<lparr>trace := trace w @ [KvPut k v]\<rparr>
      in if put_rejects w k v then (Inl StoreError, w')
         else (Inr (), w'\<lparr>WAITLIST_STORAGE := (WAITLIST_STORAGE w)(k \<mapsto> v)\<rparr>))"

definition randomUUID :: "world \<Rightarrow> string \<times> world" where
  "randomUUID w =
     (Rep_uuid (uuid_supply w (uuids_drawn w)), w\<lparr>uuids_drawn := Suc (uuids_drawn w)\<rparr>)"

definition toISOString :: "world \<Rightarrow> string" where
  "toISOString w = clock w"

definition console :: "world \<Rightarrow> string \<Rightarrow> console_arg list \<Rightarrow> world" where
  "console w level args = w\<lparr>trace := trace w @ [Console level args]\<rparr>"

definition siteverify_url :: string where
  "siteverify_url = ''https://challenges.cloudflare.com/turnstile/v0/siteverify''"

definition allow_headers :: string where
  "allow_headers = ''Content-Type, X-CX-Frontend-Signature, X-CX-Request-ID, X-CX-Timestamp, X-CX-Origin, X-Edge-Node, Cache-Control''"

section \<open>backup_worker.js\<close>

text \<open>The verification request of backup_worker.js: a template literal as body.\<close>

definition backup_verify_request :: "string \<Rightarrow> form_value option \<Rightarrow> outbound" where
  "backup_verify_request secret turnstileToken =
     \<lparr>url = siteverify_url,
      out_method = ''POST'',
      out_body = Plain (''secret='' @ secret @ ''&response='' @ template turnstileToken),
      out_headers =
        [(''content-type'', ''application/json''),
         (''Access-Control-Allow-Origin'', ''*''),
         (''Access-Control-Allow-Methods'', ''POST, OPTIONS''),
         (''Access-Control-Allow-Headers'', allow_headers)]\<rparr>"

definition fetch_backup :: "world \<Rightarrow> request \<Rightarrow> (js_error + response) \<times> world" where
  "fetch_backup env request =
    (if method request = ''OPTIONS'' then
       (Inr (new_Response None (Some 204)
          [(''Access-Control-Allow-Origin'', ''*''),
           (''Access-Control-Allow-Methods'', ''POST, OPTIONS''),
           (''Access-Control-Allow-Headers'', allow_headers)]), env)
     else if method request \<noteq> ''POST'' then
       (Inr (new_Response (Some (Plain ''Method Not Allowed'')) (Some 405) []), env)
     else
       (case formData request of
          Inl err \<Rightarrow> (Inl err, env)
        | Inr fd \<Rightarrow>
            (let email = form_get fd ''email'';
                 turnstileToken = form_get fd ''cf-turnstile-response''
             in case js_fetch env (backup_verify_request (TURNSTILE_SECRET env) turnstileToken) of
                  (Inl err, env1) \<Rightarrow> (Inl err, env1)
                | (Inr verifyResponse, env1) \<Rightarrow>
                    (case reply_json verifyResponse of
                       Inl err \<Rightarrow> (Inl err, env1)
                     | Inr verification \<Rightarrow>
                         (case prop_success verification of
                            Inl err \<Rightarrow> (Inl err, env1)
                          | Inr success \<Rightarrow>
                              if \<not> truthy success then
                                (Inr (new_Response (Some (Plain ''Bot detected'')) (Some 403) []), env1)
                              else
                                (case randomUUID env1 of
                                   (id', env2) \<Rightarrow>
                                     (case kv_put env2 (''lead:'' @ template email)
                                             (Stringify (JObj
                                               [(''email'', js_of_form email),
                                                (''timestamp'', JStr (toISOString env2)),
                                                (''id'', JStr id')])) of
                                        (Inl err, env3) \<Rightarrow> (Inl err, env3)
                                      | (Inr u, env3) \<Rightarrow>
                                          (Inr (new_Response
                                             (Some (Stringify (JObj [(''success'', JBool True), (''id'', JStr id')])))
                                             None
                                             [(''Content-Type'', ''application/json''),
                                              (''Access-Control-Allow-Origin'', ''*'')]), env3))))))))"

section \<open>unnamed/part_000\<close>

text \<open>The verification request of the later drafts: a JSON body.\<close>

definition json_verify_request :: "string \<Rightarrow> form_value option \<Rightarrow> outbound" where
  "json_verify_request secret turnstileToken =
     \<lparr>url = siteverify_url,
      out_method = ''POST'',
      out_body = Stringify (JObj [(''secret'', JStr secret), (''response'', js_of_form turnstileToken)]),
      out_headers = [(''content-type'', ''application/json'')]\<rparr>"

text \<open>The check mark U+2713 that starts the last console line, as its UTF-8 bytes.\<close>

definition lead_saved :: string where
  "lead_saved = [CHR 0xE2, CHR 0x9C, CHR 0x93] @ '' Lead saved:''"

definition fetch_part_000 :: "world \<Rightarrow> request \<Rightarrow> (js_error + response) \<times> world" where
  "fetch_part_000 env request =
    (if method request = ''OPTIONS'' then
       (Inr (new_Response None (Some 204)
          [(''Access-Control-Allow-Origin'', ''*''),
           (''Access-Control-Allow-Methods'', ''POST, OPTIONS''),
           (''Access-Control-Allow-Headers'', allow_headers)]), env)
     else if method request \<noteq> ''POST'' then
       (Inr (new_Response (Some (Plain ''Method Not Allowed'')) (Some 405)
          [(''Access-Control-Allow-Origin'', ''*'')]), env)
     else
       (case formData request of
          Inl err \<Rightarrow> (Inl err, env)
        | Inr fd \<Rightarrow>
            (let email = form_get fd ''email'';
                 turnstileToken = form_get fd ''cf-turnstile-response'';
                 env0 = console env ''log''
                   [Str ''Turnstile token:'',
                    Str (if truthy (js_of_form turnstileToken) then ''present'' else ''MISSING'')]
             in case js_fetch env0 (json_verify_request (TURNSTILE_SECRET env0) turnstileToken) of
                  (Inl err, env1) \<Rightarrow> (Inl err, env1)
                | (Inr verifyResponse, env1) \<Rightarrow>
                    (case reply_json verifyResponse of
                       Inl err \<Rightarrow> (Inl err, env1)
                     | Inr verification \<Rightarrow>
                         (let env2 = console env1 ''log'' [Str ''Turnstile verification:'', Val verification]
                          in case prop_success verification of
                               Inl err \<Rightarrow> (Inl err, env2)
                             | Inr success \<Rightarrow>
                                 if \<not> truthy success then
                                   (Inr (new_Response
                                      (Some (Stringify (JObj
                                         [(''success'', JBool False),
                                          (''error'', JStr ''Turnstile verification failed''),
                                          (''details'', verification)])))
                                      (Some 403)
                                      [(''Content-Type'', ''application/json''),
                                       (''Access-Control-Allow-Origin'', ''*'')]),
                                    console env2 ''error'' [Str ''Turnstile verification failed:'', Val verification])
                                 else
                                   (case randomUUID env2 of
                                      (id', env3) \<Rightarrow>
                                        (case kv_put env3 (''lead:'' @ template email)
                                                (Stringify (JObj
                                                  [(''email'', js_of_form email),
                                                   (''timestamp'', JStr (toISOString env3)),
                                                   (''id'', JStr id')])) of
                                           (Inl err, env4) \<Rightarrow> (Inl err, env4)
                                         | (Inr u, env4) \<Rightarrow>
                                             (Inr (new_Response
                                                (Some (Stringify (JObj [(''success'', JBool True), (''id'', JStr id')])))
                                                None
                                                [(''Content-Type'', ''application/json''),
                                                 (''Access-Control-Allow-Origin'', ''*'')]),
                                              console env4 ''log'' [Str lead_saved, Str id']))))))))"

section \<open>The worker in config.example.js\<close>

definition fetch_config :: "world \<Rightarrow> request \<Rightarrow> (js_error + response) \<times> world" where
  "fetch_config env request =
    (if method request = ''OPTIONS'' then
       (Inr (new_Response None (Some 204)
          [(''Access-Control-Allow-Origin'', ''*''),
           (''Access-Control-Allow-Methods'', ''POST, OPTIONS''),
           (''Access-Control-Allow-Headers'', allow_headers)]), env)
     else if method request \<noteq> ''POST'' then
       (Inr (new_Response (Some (Plain ''Method Not Allowed'')) (Some 405)
          [(''Access-Control-Allow-Origin'', ''*'')]), env)
     else
       (case formData request of
          Inl err \<Rightarrow> (Inl err, env)
        | Inr fd \<Rightarrow>
            (let email = form_get fd ''email'';
                 company = form_get fd ''company'';
                 turnstileToken = form_get fd ''cf-turnstile-response'';
                 env0 = console env ''log''
                   [Str ''New lead:'',
                    Val (JObj [(''email'', js_of_form email), (''company'', js_of_form company)])]
             in case js_fetch env0 (json_verify_request (TURNSTILE_SECRET env0) turnstileToken) of
                  (Inl err, env1) \<Rightarrow> (Inl err, env1)
                | (Inr verifyResponse, env1) \<Rightarrow>
                    (case reply_json verifyResponse of
                       Inl err \<Rightarrow> (Inl err, env1)
                     | Inr verification \<Rightarrow>
                         (case prop_success verification of
                            Inl err \<Rightarrow> (Inl err, env1)
                          | Inr success \<Rightarrow>
                              if \<not> truthy success then
                                (Inr (new_Response
                                   (Some (Stringify (JObj
                                      [(''success'', JBool False),
                                       (''error'', JStr ''Turnstile verification failed'')])))
                                   (Some 403)
                                   [(''Content-Type'', ''application/json''),
                                    (''Access-Control-Allow-Origin'', ''*'')]),
                                 console env1 ''error'' [Str ''Turnstile verification failed:'', Val verification])
                              else
                                (case randomUUID env1 of
                                   (id', env2) \<Rightarrow>
                                     (case kv_put env2 id'
                                             (Stringify (JObj
                                               [(''email'', js_of_form email),
                                                (''company'', js_of_form company),
                                                (''timestamp'', JStr (toISOString env2)),
                                                (''id'', JStr id')])) of
                                        (Inl err, env3) \<Rightarrow> (Inl err, env3)
                                      | (Inr u, env3) \<Rightarrow>
                                          (Inr (new_Response
                                             (Some (Stringify (JObj [(''success'', JBool True), (''id'', JStr id')])))
                                             None
                                             [(''Content-Type'', ''application/json''),
                                              (''Access-Control-Allow-Origin'', ''*'')]),
                                           console env3 ''log'' [Str lead_saved, Str id']))))))))"

section \<open>worker-cors-complete.js\<close>

definition handleOptions :: response where
  "handleOptions =
     new_Response None (Some 204)
       [(''Access-Control-Allow-Origin'', ''*''),
        (''Access-Control-Allow-Methods'', ''POST, OPTIONS''),
        (''Access-Control-Allow-Headers'', allow_headers),
        (''Access-Control-Max-Age'', ''86400'')]"

text \<open>\<open>jsonResponse(data, status = 200)\<close>.\<close>

definition jsonResponse :: "jsval \<Rightarrow> nat option \<Rightarrow> response" where
  "jsonResponse data st =
     new_Response (Some (Stringify data)) (Some (case st of None \<Rightarrow> 200 | Some s \<Rightarrow> s))
       [(''Content-Type'', ''application/json''),
        (''Access-Control-Allow-Origin'', ''*''),
        (''Access-Control-Allow-Methods'', ''POST, OPTIONS''),
        (''Access-Control-Allow-Headers'', allow_headers)]"

text \<open>The request that \<open>verifyTurnstile\<close> sends: the secret is a literal of the file.\<close>

definition turnstile_request :: "form_value option \<Rightarrow> outbound" where
  "turnstile_request token =
     \<lparr>url = siteverify_url,
      out_method = ''POST'',
      out_body = Stringify (JObj
        [(''secret'', JStr ''YOUR_TURNSTILE_SECRET_KEY_HERE''),
         (''response'', js_of_form token)]),
      out_headers = [(''Content-Type'', ''application/json'')]\<rparr>"

definition verifyTurnstile :: "world \<Rightarrow> form_value option \<Rightarrow> (js_error + jsval) \<times> world" where
  "verifyTurnstile w token =
     (case js_fetch w (turnstile_request token) of
        (Inl err, w1) \<Rightarrow> (Inl err, w1)
      | (Inr response, w1) \<Rightarrow> (reply_json response, w1))"

text \<open>The body of the \<open>try\<close> block of \<open>handlePost\<close>.\<close>

definition handlePost_try :: "world \<Rightarrow> request \<Rightarrow> (js_error + response) \<times> world" where
  "handlePost_try w request =
     (case formData request of
        Inl err \<Rightarrow> (Inl err, w)
      | Inr fd \<Rightarrow>
          (let email = form_get fd ''email'';
               turnstileToken = form_get fd ''cf-turnstile-response''
           in if \<not> truthy (js_of_form turnstileToken) then
                (Inr (jsonResponse
                   (JObj [(''success'', JBool False), (''error'', JStr ''Missing Turnstile token'')])
                   (Some 400)), w)
              else
                (case verifyTurnstile w turnstileToken of
                   (Inl err, w1) \<Rightarrow> (Inl err, w1)
                 | (Inr turnstileVerify, w1) \<Rightarrow>
                     (case prop_success turnstileVerify of
                        Inl err \<Rightarrow> (Inl err, w1)
                      | Inr success \<Rightarrow>
                          if \<not> truthy success then
                            (Inr (jsonResponse
                               (JObj [(''success'', JBool False), (''error'', JStr ''Invalid Turnstile token'')])
                               (Some 403)), w1)
                          else
                            (case randomUUID w1 of
                               (leadId, w2) \<Rightarrow>
                                 (let leadData = JObj
                                        [(''email'', js_of_form email),
                                         (''timestamp'', JStr (toISOString w2)),
                                         (''id'', JStr leadId)];
                                      w3 = console w2 ''log'' [Str ''Lead stored:'', Json leadData]
                                  in (Inr (jsonResponse
                                        (JObj [(''success'', JBool True), (''id'', JStr leadId)])
                                        (Some 200)), w3)))))))"

text \<open>\<open>handlePost\<close>: the \<open>try\<close> block, and the \<open>catch\<close> that answers 500.\<close>

definition handlePost :: "world \<Rightarrow> request \<Rightarrow> (js_error + response) \<times> world" where
  "handlePost w request =
     (case handlePost_try w request of
        (Inl error, w1) \<Rightarrow>
          (Inr (jsonResponse
             (JObj [(''success'', JBool False), (''error'', JStr ''Internal server error'')])
             (Some 500)),
           console w1 ''error'' [Str ''Error processing request:'', Err error])
      | (Inr r, w1) \<Rightarrow> (Inr r, w1))"

definition handleRequest :: "world \<Rightarrow> request \<Rightarrow> (js_error + response) \<times> world" where
  "handleRequest w request =
     (if method request = ''OPTIONS'' then (Inr handleOptions, w)
      else if method request = ''POST'' then handlePost w request
      else (Inr (new_Response (Some (Plain ''Method not allowed'')) (Some 405) []), w))"

section \<open>What a run did\<close>

text \<open>The events a run added to the trace, from the world before and the world after.\<close>

definition new_events :: "world \<Rightarrow> world \<Rightarrow> event list" where
  "new_events w w' = drop (length (trace w)) (trace w')"

fun kv_puts :: "event list \<Rightarrow> (string \<times> payload) list" where
  "kv_puts [] = []"
| "kv_puts (KvPut k v # es) = (k, v) # kv_puts es"
| "kv_puts (Outbound ob # es) = kv_puts es"
| "kv_puts (Console level args # es) = kv_puts es"

fun outbound_calls :: "event list \<Rightarrow> outbound list" where
  "outbound_calls [] = []"
| "outbound_calls (Outbound ob # es) = ob # outbound_calls es"
| "outbound_calls (KvPut k v # es) = outbound_calls es"
| "outbound_calls (Console level args # es) = outbound_calls es"

text \<open>The network and storage operations of a trace: everything but the console lines.\<close>

fun external_io :: "event list \<Rightarrow> event list" where
  "external_io [] = []"
| "external_io (Console level args # es) = external_io es"
| "external_io (e # es) = e # external_io es"

text \<open>The value a response body is the serialisation of, and a property of an object.\<close>

fun json_body :: "response \<Rightarrow> jsval option" where
  "json_body r = (case body r of Some (Stringify v) \<Rightarrow> Some v | _ \<Rightarrow> None)"

fun property :: "jsval \<Rightarrow> string \<Rightarrow> jsval option" where
  "property (JObj kvs) k = map_of kvs k"
| "property v k = None"

text \<open>
  The verification service accepts: the call resolves, its reply parses, and the handler's
  test \<open>!verification.success\<close> is false. It rejects: the same, with the test true. It
  faults: the call rejects, the reply does not parse, or reading \<open>success\<close> throws.
\<close>

definition verification :: "world \<Rightarrow> outbound \<Rightarrow> js_error + jsval \<times> bool" where
  "verification w ob =
     (case siteverify w ob of
        Rejects err \<Rightarrow> Inl err
      | Resolves r \<Rightarrow>
          (case reply_json r of
             Inl err \<Rightarrow> Inl err
           | Inr v \<Rightarrow>
               (case prop_success v of
                  Inl err \<Rightarrow> Inl err
                | Inr success \<Rightarrow> Inr (v, truthy success))))"

definition accepts :: "world \<Rightarrow> outbound \<Rightarrow> bool" where
  "accepts w ob = (case verification w ob of Inr (v, ok) \<Rightarrow> ok | Inl err \<Rightarrow> False)"

definition rejects :: "world \<Rightarrow> outbound \<Rightarrow> bool" where
  "rejects w ob = (case verification w ob of Inr (v, ok) \<Rightarrow> \<not> ok | Inl err \<Rightarrow> False)"

text \<open>
  The verification of a POST by a handler that builds its call with \<open>mk\<close> from the
  secret and the token field: nothing is verified when the form does not parse.
\<close>

definition token_field :: "form \<Rightarrow> form_value option" where
  "token_field fd = form_get fd ''cf-turnstile-response''"

definition verified_by :: "(string \<Rightarrow> form_value option \<Rightarrow> outbound) \<Rightarrow> world \<Rightarrow> request \<Rightarrow> bool" where
  "verified_by mk env req =
     (case formData req of
        Inl err \<Rightarrow> False
      | Inr fd \<Rightarrow> accepts env (mk (TURNSTILE_SECRET env) (token_field fd)))"

text \<open>The store writes of a run, in order.\<close>

definition writes :: "world \<Rightarrow> (js_error + response) \<times> world \<Rightarrow> (string \<times> payload) list" where
  "writes env run = kv_puts (new_events env (snd run))"

text \<open>The acknowledgement \<open>{success: true, id}\<close> with status 200.\<close>

definition acknowledges :: "response \<Rightarrow> string \<Rightarrow> bool" where
  "acknowledges r i =
     (status r = 200 \<and> json_body r = Some (JObj [(''success'', JBool True), (''id'', JStr i)]))"

text \<open>
  The persistence invariant of one run of \<open>handler\<close>: it issues one store write when the
  verification succeeded and none otherwise, leaves the store as it was when the
  verification did not succeed, and a write the store accepts is in the store afterwards.
\<close>

definition written_iff_verified ::
  "(world \<Rightarrow> request \<Rightarrow> (js_error + response) \<times> world) \<Rightarrow>
   (string \<Rightarrow> form_value option \<Rightarrow> outbound) \<Rightarrow> world \<Rightarrow> request \<Rightarrow> bool" where
  "written_iff_verified handler mk env req =
     (let run = handler env req; env' = snd run
      in length (writes env run) = (if verified_by mk env req then 1 else 0) \<and>
         (\<not> verified_by mk env req \<longrightarrow> WAITLIST_STORAGE env' = WAITLIST_STORAGE env) \<and>
         (\<forall>(k, v) \<in> set (writes env run).
            \<not> put_rejects env k v \<longrightarrow> WAITLIST_STORAGE env' k = Some v))"

text \<open>A list of operations that is the call \<open>ob\<close>, alone or followed by one store write.\<close>

fun one_call_then_at_most_one_write :: "outbound \<Rightarrow> event list \<Rightarrow> bool" where
  "one_call_then_at_most_one_write ob [Outbound ob'] = (ob' = ob)"
| "one_call_then_at_most_one_write ob [Outbound ob', KvPut k v] = (ob' = ob)"
| "one_call_then_at_most_one_write ob es = False"

text \<open>
  The key and the value of the one \<open>put\<close> of backup_worker.js (lines 42 to 46) and of
  unnamed/part_000 (lines 61 to 65), as a run that reaches it builds them from the form,
  the clock and the UUID it draws.
\<close>

definition email_key :: "form \<Rightarrow> string" where
  "email_key fd = ''lead:'' @ template (form_get fd ''email'')"

definition lead_record :: "world \<Rightarrow> form \<Rightarrow> payload" where
  "lead_record env fd =
     Stringify (JObj
       [(''email'', js_of_form (form_get fd ''email'')),
        (''timestamp'', JStr (clock env)),
        (''id'', JStr (Rep_uuid (uuid_supply env (uuids_drawn env))))])"


section \<open>Example worlds and requests\<close>

definition first_uuid :: uuid where
  "first_uuid = Abs_uuid ''123e4567-e89b-42d3-a456-426614174000''"

definition second_uuid :: uuid where
  "second_uuid = Abs_uuid ''9b2f0c3a-71d4-4e8b-b6a5-0f1e2d3c4b5a''"

definition accepting_service :: "outbound \<Rightarrow> fetch_outcome" where
  "accepting_service ob = Resolves (Inr (JObj [(''success'', JBool True)]))"

definition rejecting_service :: "outbound \<Rightarrow> fetch_outcome" where
  "rejecting_service ob =
     Resolves (Inr (JObj
       [(''success'', JBool False),
        (''error-codes'', JArr [JStr ''invalid-input-secret''])]))"

definition unreachable_service :: "outbound \<Rightarrow> fetch_outcome" where
  "unreachable_service ob = Rejects NetworkError"

definition rejecting_store :: "string \<Rightarrow> payload \<Rightarrow> bool" where
  "rejecting_store k v = True"

text \<open>A store that rejects a \<open>put\<close> whose key is longer than \<open>n\<close> characters.\<close>

definition key_limit_store :: "nat \<Rightarrow> string \<Rightarrow> payload \<Rightarrow> bool" where
  "key_limit_store n k v = (n < length k)"


text \<open>A service that rejects the token and says nothing more.\<close>

definition silent_service :: "outbound \<Rightarrow> fetch_outcome" where
  "silent_service ob = Resolves (Inr (JObj [(''success'', JBool False)]))"

definition example_world :: "(outbound \<Rightarrow> fetch_outcome) \<Rightarrow> world" where
  "example_world service =
     \<lparr>TURNSTILE_SECRET = ''0x4AAAAAAA-secret'',
      WAITLIST_STORAGE = Map.empty,
      siteverify = service,
      put_rejects = (\<lambda>k v. False),
      uuid_supply = (\<lambda>n. if n = 0 then first_uuid else second_uuid),
      uuids_drawn = 0,
      clock = ''2025-01-01T00:00:00.000Z'',
      trace = []\<rparr>"

definition alice_form :: form where
  "alice_form =
     [(''email'', FormString ''alice@example.com''),
      (''company'', FormString ''Example Ltd''),
      (''cf-turnstile-response'', FormString ''token-1'')]"

definition alice_post :: request where
  "alice_post = \<lparr>method = ''POST'', formData = Inr alice_form\<rparr>"

definition unparsable_post :: request where
  "unparsable_post = \<lparr>method = ''POST'', formData = Inl TypeError\<rparr>"

definition get_request :: request where
  "get_request = \<lparr>method = ''GET'', formData = Inl TypeError\<rparr>"

definition options_request :: request where
  "options_request = \<lparr>method = ''OPTIONS'', formData = Inl TypeError\<rparr>"

section \<open>The paths of a POST through each handler\<close>

lemmas handler_defs =
  js_fetch_def kv_put_def randomUUID_def console_def toISOString_def reply_json_def
  new_Response_def token_field_def Let_def

lemmas observer_defs =
  new_events_def writes_def accepts_def rejects_def verified_by_def acknowledges_def

lemmas example_defs =
  example_world_def alice_post_def alice_form_def unparsable_post_def get_request_def
  options_request_def accepting_service_def rejecting_service_def unreachable_service_def
  rejecting_store_def silent_service_def
  form_get_def token_field_def verification_def reply_json_def
  backup_verify_request_def json_verify_request_def turnstile_request_def

lemma Rep_uuid_nonempty: "Rep_uuid u \<noteq> []"
  using Rep_uuid [of u] by auto



lemma verification_accepts_or_rejects:
  assumes "verification w ob = Inr (v, ok)"
  shows "\<exists>s. siteverify w ob = Resolves (Inr v) \<and> prop_success v = Inr s \<and> truthy s = ok"
  using assms
  by (auto simp: verification_def reply_json_def split: fetch_outcome.splits sum.splits)

lemma verification_faults:
  assumes "verification w ob = Inl e"
  shows "siteverify w ob = Rejects e \<or> siteverify w ob = Resolves (Inl e) \<or>
         (\<exists>v. siteverify w ob = Resolves (Inr v) \<and> prop_success v = Inl e)"
  using assms
  by (auto simp: verification_def reply_json_def split: fetch_outcome.splits sum.splits)

text \<open>Every POST takes one of four paths, told apart by the form and the verification.\<close>

lemma post_cases [case_names unparsable fault rejected accepted]:
  fixes mk :: "string \<Rightarrow> form_value option \<Rightarrow> outbound"
  obtains e where "formData req = Inl e"
  | fd e where "formData req = Inr fd"
      and "verification env (mk (TURNSTILE_SECRET env) (token_field fd)) = Inl e"
  | fd v where "formData req = Inr fd"
      and "verification env (mk (TURNSTILE_SECRET env) (token_field fd)) = Inr (v, False)"
  | fd v where "formData req = Inr fd"
      and "verification env (mk (TURNSTILE_SECRET env) (token_field fd)) = Inr (v, True)"
proof (cases "formData req")
  case (Inl e)
  then show ?thesis by (rule that(1))
next
  case (Inr fd)
  show ?thesis
  proof (cases "verification env (mk (TURNSTILE_SECRET env) (token_field fd))")
    case (Inl e)
    with Inr show ?thesis by (rule that(2))
  next
    case (Inr p)
    then obtain v ok
      where "verification env (mk (TURNSTILE_SECRET env) (token_field fd)) = Inr (v, ok)"
      by (cases p) simp
    with \<open>formData req = Inr fd\<close> show ?thesis
      by (cases ok) (auto intro: that(3) that(4))
  qed
qed

subsection \<open>backup_worker.js\<close>

lemma backup_unparsable:
  assumes "method req = ''POST''" and "formData req = Inl e"
  shows "fetch_backup env req = (Inl e, env)"
  using assms by (simp add: fetch_backup_def)

lemma backup_fault:
  assumes "method req = ''POST''" and "formData req = Inr fd"
    and "verification env (backup_verify_request (TURNSTILE_SECRET env) (token_field fd)) = Inl e"
  shows "fetch_backup env req =
    (Inl e, env\<lparr>trace := trace env @
       [Outbound (backup_verify_request (TURNSTILE_SECRET env) (token_field fd))]\<rparr>)"
  using verification_faults [OF assms(3)] assms(1,2)
  by (auto simp: fetch_backup_def handler_defs)

lemma backup_rejected:
  assumes "method req = ''POST''" and "formData req = Inr fd"
    and "verification env (backup_verify_request (TURNSTILE_SECRET env) (token_field fd)) = Inr (v, False)"
  shows "fetch_backup env req =
    (Inr \<lparr>status = 403, body = Some (Plain ''Bot detected''), headers = []\<rparr>,
     env\<lparr>trace := trace env @
       [Outbound (backup_verify_request (TURNSTILE_SECRET env) (token_field fd))]\<rparr>)"
  using verification_accepts_or_rejects [OF assms(3)] assms(1,2)
  by (auto simp: fetch_backup_def handler_defs)

lemma backup_accepted:
  assumes "method req = ''POST''" and "formData req = Inr fd"
    and "verification env (backup_verify_request (TURNSTILE_SECRET env) (token_field fd)) = Inr (v, True)"
    and "i = Rep_uuid (uuid_supply env (uuids_drawn env))"
    and "k = ''lead:'' @ template (form_get fd ''email'')"
    and "r = Stringify (JObj
           [(''email'', js_of_form (form_get fd ''email'')),
            (''timestamp'', JStr (clock env)),
            (''id'', JStr i)])"
    and "env' = env\<lparr>trace := trace env @
           [Outbound (backup_verify_request (TURNSTILE_SECRET env) (token_field fd)), KvPut k r],
           uuids_drawn := Suc (uuids_drawn env)\<rparr>"
  shows "fetch_backup env req =
    (if put_rejects env k r then (Inl StoreError, env')
     else
       (Inr \<lparr>status = 200,
          body = Some (Stringify (JObj [(''success'', JBool True), (''id'', JStr i)])),
          headers = [(''Content-Type'', ''application/json''), (''Access-Control-Allow-Origin'', ''*'')]\<rparr>,
        env'\<lparr>WAITLIST_STORAGE := (WAITLIST_STORAGE env)(k \<mapsto> r)\<rparr>))"
  using verification_accepts_or_rejects [OF assms(3)] assms(1,2,4-)
  by (auto simp: fetch_backup_def handler_defs)

subsection \<open>unnamed/part_000\<close>

lemma part_000_unparsable:
  assumes "method req = ''POST''" and "formData req = Inl e"
  shows "fetch_part_000 env req = (Inl e, env)"
  using assms by (simp add: fetch_part_000_def)

lemma part_000_fault:
  assumes "method req = ''POST''" and "formData req = Inr fd"
    and "verification env (json_verify_request (TURNSTILE_SECRET env) (token_field fd)) = Inl e"
  shows "\<exists>es. fetch_part_000 env req =
      (Inl e, env\<lparr>trace := trace env @
         Console ''log'' [Str ''Turnstile token:'',
           Str (if truthy (js_of_form (token_field fd)) then ''present'' else ''MISSING'')] #
         Outbound (json_verify_request (TURNSTILE_SECRET env) (token_field fd)) # es\<rparr>) \<and>
      (es = [] \<or> (\<exists>v. es = [Console ''log'' [Str ''Turnstile verification:'', Val v]]))"
  using verification_faults [OF assms(3)] assms(1,2)
  by (auto simp: fetch_part_000_def handler_defs)

lemma part_000_rejected:
  assumes "method req = ''POST''" and "formData req = Inr fd"
    and "verification env (json_verify_request (TURNSTILE_SECRET env) (token_field fd)) = Inr (v, False)"
  shows "fetch_part_000 env req =
    (Inr \<lparr>status = 403,
       body = Some (Stringify (JObj
         [(''success'', JBool False),
          (''error'', JStr ''Turnstile verification failed''),
          (''details'', v)])),
       headers = [(''Content-Type'', ''application/json''), (''Access-Control-Allow-Origin'', ''*'')]\<rparr>,
     env\<lparr>trace := trace env @
       [Console ''log'' [Str ''Turnstile token:'',
          Str (if truthy (js_of_form (token_field fd)) then ''present'' else ''MISSING'')],
        Outbound (json_verify_request (TURNSTILE_SECRET env) (token_field fd)),
        Console ''log'' [Str ''Turnstile verification:'', Val v],
        Console ''error'' [Str ''Turnstile verification failed:'', Val v]]\<rparr>)"
  using verification_accepts_or_rejects [OF assms(3)] assms(1,2)
  by (auto simp: fetch_part_000_def handler_defs)

lemma part_000_accepted:
  assumes "method req = ''POST''" and "formData req = Inr fd"
    and "verification env (json_verify_request (TURNSTILE_SECRET env) (token_field fd)) = Inr (v, True)"
    and "i = Rep_uuid (uuid_supply env (uuids_drawn env))"
    and "k = ''lead:'' @ template (form_get fd ''email'')"
    and "r = Stringify (JObj
           [(''email'', js_of_form (form_get fd ''email'')),
            (''timestamp'', JStr (clock env)),
            (''id'', JStr i)])"
    and "es = [Console ''log'' [Str ''Turnstile token:'',
                 Str (if truthy (js_of_form (token_field fd)) then ''present'' else ''MISSING'')],
               Outbound (json_verify_request (TURNSTILE_SECRET env) (token_field fd)),
               Console ''log'' [Str ''Turnstile verification:'', Val v],
               KvPut k r]"
  shows "fetch_part_000 env req =
    (if put_rejects env k r then
       (Inl StoreError,
        env\<lparr>trace := trace env @ es, uuids_drawn := Suc (uuids_drawn env)\<rparr>)
     else
       (Inr \<lparr>status = 200,
          body = Some (Stringify (JObj [(''success'', JBool True), (''id'', JStr i)])),
          headers = [(''Content-Type'', ''application/json''), (''Access-Control-Allow-Origin'', ''*'')]\<rparr>,
        env\<lparr>trace := trace env @ es @ [Console ''log'' [Str lead_saved, Str i]],
          uuids_drawn := Suc (uuids_drawn env),
          WAITLIST_STORAGE := (WAITLIST_STORAGE env)(k \<mapsto> r)\<rparr>))"
  using verification_accepts_or_rejects [OF assms(3)] assms(1,2,4-)
  by (auto simp: fetch_part_000_def handler_defs)

subsection \<open>The worker in config.example.js\<close>

lemma config_unparsable:
  assumes "method req = ''POST''" and "formData req = Inl e"
  shows "fetch_config env req = (Inl e, env)"
  using assms by (simp add: fetch_config_def)

lemma config_fault:
  assumes "method req = ''POST''" and "formData req = Inr fd"
    and "verification env (json_verify_request (TURNSTILE_SECRET env) (token_field fd)) = Inl e"
  shows "fetch_config env req =
      (Inl e, env\<lparr>trace := trace env @
         [Console ''log'' [Str ''New lead:'',
            Val (JObj [(''email'', js_of_form (form_get fd ''email'')),
                       (''company'', js_of_form (form_get fd ''company''))])],
          Outbound (json_verify_request (TURNSTILE_SECRET env) (token_field fd))]\<rparr>)"
  using verification_faults [OF assms(3)] assms(1,2)
  by (auto simp: fetch_config_def handler_defs)

lemma config_rejected:
  assumes "method req = ''POST''" and "formData req = Inr fd"
    and "verification env (json_verify_request (TURNSTILE_SECRET env) (token_field fd)) = Inr (v, False)"
  shows "fetch_config env req =
    (Inr \<lparr>status = 403,
       body = Some (Stringify (JObj
         [(''success'', JBool False),
          (''error'', JStr ''Turnstile verification failed'')])),
       headers = [(''Content-Type'', ''application/json''), (''Access-Control-Allow-Origin'', ''*'')]\<rparr>,
     env\<lparr>trace := trace env @
       [Console ''log'' [Str ''New lead:'',
          Val (JObj [(''email'', js_of_form (form_get fd ''email'')),
                     (''company'', js_of_form (form_get fd ''company''))])],
        Outbound (json_verify_request (TURNSTILE_SECRET env) (token_field fd)),
        Console ''error'' [Str ''Turnstile verification failed:'', Val v]]\<rparr>)"
  using verification_accepts_or_rejects [OF assms(3)] assms(1,2)
  by (auto simp: fetch_config_def handler_defs)

lemma config_accepted:
  assumes "method req = ''POST''" and "formData req = Inr fd"
    and "verification env (json_verify_request (TURNSTILE_SECRET env) (token_field fd)) = Inr (v, True)"
    and "i = Rep_uuid (uuid_supply env (uuids_drawn env))"
    and "r = Stringify (JObj
           [(''email'', js_of_form (form_get fd ''email'')),
            (''company'', js_of_form (form_get fd ''company'')),
            (''timestamp'', JStr (clock env)),
            (''id'', JStr i)])"
    and "es = [Console ''log'' [Str ''New lead:'',
                 Val (JObj [(''email'', js_of_form (form_get fd ''email'')),
                            (''company'', js_of_form (form_get fd ''company''))])],
               Outbound (json_verify_request (TURNSTILE_SECRET env) (token_field fd)),
               KvPut i r]"
  shows "fetch_config env req =
    (if put_rejects env i r then
       (Inl StoreError,
        env\<lparr>trace := trace env @ es, uuids_drawn := Suc (uuids_drawn env)\<rparr>)
     else
       (Inr \<lparr>status = 200,
          body = Some (Stringify (JObj [(''success'', JBool True), (''id'', JStr i)])),
          headers = [(''Content-Type'', ''application/json''), (''Access-Control-Allow-Origin'', ''*'')]\<rparr>,
        env\<lparr>trace := trace env @ es @ [Console ''log'' [Str lead_saved, Str i]],
          uuids_drawn := Suc (uuids_drawn env),
          WAITLIST_STORAGE := (WAITLIST_STORAGE env)(i \<mapsto> r)\<rparr>))"
  using verification_accepts_or_rejects [OF assms(3)] assms(1,2,4-)
  by (auto simp: fetch_config_def handler_defs)

subsection \<open>worker-cors-complete.js\<close>

lemmas complete_defs =
  handleRequest_def handlePost_def handlePost_try_def verifyTurnstile_def jsonResponse_def

lemma complete_unparsable:
  assumes "method req = ''POST''" and "formData req = Inl e"
  shows "handleRequest env req =
    (Inr (jsonResponse
       (JObj [(''success'', JBool False), (''error'', JStr ''Internal server error'')])
       (Some 500)),
     env\<lparr>trace := trace env @ [Console ''error'' [Str ''Error processing request:'', Err e]]\<rparr>)"
  using assms by (simp add: complete_defs handler_defs)

lemma complete_missing_token:
  assumes "method req = ''POST''" and "formData req = Inr fd"
    and "\<not> truthy (js_of_form (token_field fd))"
  shows "handleRequest env req =
    (Inr \<lparr>status = 400,
       body = Some (Stringify (JObj
         [(''success'', JBool False), (''error'', JStr ''Missing Turnstile token'')])),
       headers =
         [(''Content-Type'', ''application/json''),
          (''Access-Control-Allow-Origin'', ''*''),
          (''Access-Control-Allow-Methods'', ''POST, OPTIONS''),
          (''Access-Control-Allow-Headers'', allow_headers)]\<rparr>, env)"
  using assms by (simp add: complete_defs handler_defs)

lemma complete_fault:
  assumes "method req = ''POST''" and "formData req = Inr fd"
    and "truthy (js_of_form (token_field fd))"
    and "verification env (turnstile_request (token_field fd)) = Inl e"
  shows "handleRequest env req =
    (Inr (jsonResponse
       (JObj [(''success'', JBool False), (''error'', JStr ''Internal server error'')])
       (Some 500)),
     env\<lparr>trace := trace env @
       [Outbound (turnstile_request (token_field fd)),
        Console ''error'' [Str ''Error processing request:'', Err e]]\<rparr>)"
  using verification_faults [OF assms(4)] assms(1-3)
  by (auto simp: complete_defs handler_defs)

lemma complete_rejected:
  assumes "method req = ''POST''" and "formData req = Inr fd"
    and "truthy (js_of_form (token_field fd))"
    and "verification env (turnstile_request (token_field fd)) = Inr (v, False)"
  shows "handleRequest env req =
    (Inr \<lparr>status = 403,
       body = Some (Stringify (JObj
         [(''success'', JBool False), (''error'', JStr ''Invalid Turnstile token'')])),
       headers =
         [(''Content-Type'', ''application/json''),
          (''Access-Control-Allow-Origin'', ''*''),
          (''Access-Control-Allow-Methods'', ''POST, OPTIONS''),
          (''Access-Control-Allow-Headers'', allow_headers)]\<rparr>,
     env\<lparr>trace := trace env @ [Outbound (turnstile_request (token_field fd))]\<rparr>)"
  using verification_accepts_or_rejects [OF assms(4)] assms(1-3)
  by (auto simp: complete_defs handler_defs)

lemma complete_accepted:
  assumes "method req = ''POST''" and "formData req = Inr fd"
    and "truthy (js_of_form (token_field fd))"
    and "verification env (turnstile_request (token_field fd)) = Inr (v, True)"
    and "i = Rep_uuid (uuid_supply env (uuids_drawn env))"
  shows "handleRequest env req =
    (Inr \<lparr>status = 200,
       body = Some (Stringify (JObj [(''success'', JBool True), (''id'', JStr i)])),
       headers =
         [(''Content-Type'', ''application/json''),
          (''Access-Control-Allow-Origin'', ''*''),
          (''Access-Control-Allow-Methods'', ''POST, OPTIONS''),
          (''Access-Control-Allow-Headers'', allow_headers)]\<rparr>,
     env\<lparr>trace := trace env @
       [Outbound (turnstile_request (token_field fd)),
        Console ''log'' [Str ''Lead stored:'',
          Json (JObj
            [(''email'', js_of_form (form_get fd ''email'')),
             (''timestamp'', JStr (clock env)),
             (''id'', JStr i)])]],
       uuids_drawn := Suc (uuids_drawn env)\<rparr>)"
  using verification_accepts_or_rejects [OF assms(4)] assms(1-3,5)
  by (auto simp: complete_defs handler_defs)

section \<open>Persistence follows verification\<close>

lemma backup_written_iff_verified:
  assumes "method req = ''POST''"
  shows "written_iff_verified fetch_backup backup_verify_request env req"
proof (cases rule: post_cases [where req = req and env = env and mk = backup_verify_request])
  case (unparsable e)
  with assms show ?thesis
    by (simp add: backup_unparsable written_iff_verified_def observer_defs)
next
  case (fault fd e)
  with assms show ?thesis
    by (simp add: backup_fault written_iff_verified_def observer_defs)
next
  case (rejected fd v)
  with assms show ?thesis
    by (simp add: backup_rejected written_iff_verified_def observer_defs)
next
  case (accepted fd v)
  from backup_accepted [OF assms accepted refl refl refl refl] accepted show ?thesis
    by (simp add: written_iff_verified_def observer_defs)
qed

lemma part_000_written_iff_verified:
  assumes "method req = ''POST''"
  shows "written_iff_verified fetch_part_000 json_verify_request env req"
proof (cases rule: post_cases [where req = req and env = env and mk = json_verify_request])
  case (unparsable e)
  with assms show ?thesis
    by (simp add: part_000_unparsable written_iff_verified_def observer_defs)
next
  case (fault fd e)
  from part_000_fault [OF assms fault] fault show ?thesis
    by (auto simp: written_iff_verified_def observer_defs)
next
  case (rejected fd v)
  with assms show ?thesis
    by (simp add: part_000_rejected written_iff_verified_def observer_defs)
next
  case (accepted fd v)
  from part_000_accepted [OF assms accepted refl refl refl refl] accepted show ?thesis
    by (simp add: written_iff_verified_def observer_defs)
qed

lemma config_written_iff_verified:
  assumes "method req = ''POST''"
  shows "written_iff_verified fetch_config json_verify_request env req"
proof (cases rule: post_cases [where req = req and env = env and mk = json_verify_request])
  case (unparsable e)
  with assms show ?thesis
    by (simp add: config_unparsable written_iff_verified_def observer_defs)
next
  case (fault fd e)
  with assms show ?thesis
    by (simp add: config_fault written_iff_verified_def observer_defs)
next
  case (rejected fd v)
  with assms show ?thesis
    by (simp add: config_rejected written_iff_verified_def observer_defs)
next
  case (accepted fd v)
  from config_accepted [OF assms accepted refl refl refl] accepted show ?thesis
    by (simp add: written_iff_verified_def observer_defs)
qed

text \<open>
  C1. For every POST request, in backup_worker.js, unnamed/part_000 and the worker of
  config.example.js alike, a lead record is written to the key-value store if and only if
  the verification call's result reported success: the run issues exactly one \<open>put\<close> when
  it did and none when it did not (a failed verification, a call that faulted, a form that
  did not parse), in which case the store is left as it was; and a \<open>put\<close> that the store
  accepts leaves the record in the store.
\<close>

theorem record_written_iff_verification_succeeded:
  assumes "method req = ''POST''"
  shows "written_iff_verified fetch_backup backup_verify_request env req \<and>
         written_iff_verified fetch_part_000 json_verify_request env req \<and>
         written_iff_verified fetch_config json_verify_request env req"
  using assms backup_written_iff_verified part_000_written_iff_verified
    config_written_iff_verified by blast

theorem record_written_iff_verification_succeeded_witness:
  "method alice_post = ''POST'' \<and>
   verified_by backup_verify_request (example_world accepting_service) alice_post \<and>
   length (writes (example_world accepting_service)
     (fetch_backup (example_world accepting_service) alice_post)) = 1 \<and>
   \<not> verified_by json_verify_request (example_world rejecting_service) alice_post \<and>
   writes (example_world rejecting_service)
     (fetch_part_000 (example_world rejecting_service) alice_post) = [] \<and>
   WAITLIST_STORAGE (snd (fetch_config (example_world rejecting_service) alice_post)) = Map.empty"
proof -
  have post: "method alice_post = ''POST''"
    by (simp add: alice_post_def)
  have yes: "verified_by backup_verify_request (example_world accepting_service) alice_post"
    by (simp add: observer_defs example_defs)
  have no: "\<not> verified_by json_verify_request (example_world rejecting_service) alice_post"
    by (simp add: observer_defs example_defs)
  from record_written_iff_verification_succeeded [OF post, of "example_world accepting_service"]
    record_written_iff_verification_succeeded [OF post, of "example_world rejecting_service"]
    post yes no
  show ?thesis
    by (simp add: written_iff_verified_def Let_def example_world_def)
qed

section \<open>Preflight and other methods\<close>

text \<open>
  C5. For every request with method OPTIONS, each handler returns status 204 with no body
  and the three cross-origin headers (allow-origin, allow-methods, allow-headers), and
  returns the world as it received it: no event is added to the trace, the store is not
  touched and no UUID is drawn. The branch is taken first: the result does not depend on
  the form, on whether it parses, or on anything in the world.
\<close>

theorem options_is_answered_first_with_204:
  assumes "method req = ''OPTIONS''"
  shows "fetch_backup env req =
           (Inr \<lparr>status = 204, body = None,
              headers =
                [(''Access-Control-Allow-Origin'', ''*''),
                 (''Access-Control-Allow-Methods'', ''POST, OPTIONS''),
                 (''Access-Control-Allow-Headers'', allow_headers)]\<rparr>, env) \<and>
         fetch_part_000 env req =
           (Inr \<lparr>status = 204, body = None,
              headers =
                [(''Access-Control-Allow-Origin'', ''*''),
                 (''Access-Control-Allow-Methods'', ''POST, OPTIONS''),
                 (''Access-Control-Allow-Headers'', allow_headers)]\<rparr>, env) \<and>
         fetch_config env req =
           (Inr \<lparr>status = 204, body = None,
              headers =
                [(''Access-Control-Allow-Origin'', ''*''),
                 (''Access-Control-Allow-Methods'', ''POST, OPTIONS''),
                 (''Access-Control-Allow-Headers'', allow_headers)]\<rparr>, env) \<and>
         handleRequest env req =
           (Inr \<lparr>status = 204, body = None,
              headers =
                [(''Access-Control-Allow-Origin'', ''*''),
                 (''Access-Control-Allow-Methods'', ''POST, OPTIONS''),
                 (''Access-Control-Allow-Headers'', allow_headers),
                 (''Access-Control-Max-Age'', ''86400'')]\<rparr>, env)"
  using assms
  by (simp add: fetch_backup_def fetch_part_000_def fetch_config_def handleRequest_def
      handleOptions_def new_Response_def)

theorem options_is_answered_first_with_204_witness:
  "method options_request = ''OPTIONS'' \<and>
   fst (fetch_backup (example_world unreachable_service) options_request) =
     Inr \<lparr>status = 204, body = None,
        headers =
          [(''Access-Control-Allow-Origin'', ''*''),
           (''Access-Control-Allow-Methods'', ''POST, OPTIONS''),
           (''Access-Control-Allow-Headers'', allow_headers)]\<rparr> \<and>
   trace (snd (fetch_part_000 (example_world unreachable_service) options_request)) = [] \<and>
   WAITLIST_STORAGE (snd (handleRequest (example_world unreachable_service) options_request)) =
     Map.empty"
proof -
  have options: "method options_request = ''OPTIONS''"
    by (simp add: options_request_def)
  from options_is_answered_first_with_204 [OF options, of "example_world unreachable_service"]
    options
  show ?thesis
    by (simp add: example_world_def)
qed

text \<open>
  C6. A GET request, evaluated. unnamed/part_000 and the worker of config.example.js answer
  405 with the plain text and \<open>Access-Control-Allow-Origin: *\<close>; backup_worker.js and
  worker-cors-complete.js answer 405 with the plain text and no header at all, while the
  preflight and the acknowledgement of the same two files carry that header.
\<close>

theorem get_is_answered_405_without_cors_header_in_two_drafts:
  "fst (fetch_backup (example_world accepting_service) get_request) =
     Inr \<lparr>status = 405, body = Some (Plain ''Method Not Allowed''), headers = []\<rparr> \<and>
   fst (handleRequest (example_world accepting_service) get_request) =
     Inr \<lparr>status = 405, body = Some (Plain ''Method not allowed''), headers = []\<rparr> \<and>
   fst (fetch_part_000 (example_world accepting_service) get_request) =
     Inr \<lparr>status = 405, body = Some (Plain ''Method Not Allowed''),
        headers = [(''Access-Control-Allow-Origin'', ''*'')]\<rparr> \<and>
   fst (fetch_config (example_world accepting_service) get_request) =
     Inr \<lparr>status = 405, body = Some (Plain ''Method Not Allowed''),
        headers = [(''Access-Control-Allow-Origin'', ''*'')]\<rparr>"
  by (simp add: fetch_backup_def fetch_part_000_def fetch_config_def handleRequest_def
      new_Response_def get_request_def)

section \<open>Faults\<close>

text \<open>
  C2, as stated, fails on the module workers: with the verification service unreachable,
  backup_worker.js and unnamed/part_000 return no response; the fault leaves \<open>fetch\<close>.
\<close>

theorem unreachable_service_fault_leaves_fetch:
  "method alice_post = ''POST'' \<and>
   fst (fetch_backup (example_world unreachable_service) alice_post) = Inl NetworkError \<and>
   fst (fetch_part_000 (example_world unreachable_service) alice_post) = Inl NetworkError"
  by (simp add: fetch_backup_def fetch_part_000_def handler_defs example_defs)

lemma complete_always_responds: "\<exists>r env'. handleRequest env req = (Inr r, env')"
  by (simp add: complete_defs split: prod.splits sum.splits)

lemma complete_never_writes:
  "writes env (handleRequest env req) = [] \<and>
   WAITLIST_STORAGE (snd (handleRequest env req)) = WAITLIST_STORAGE env"
  by (simp add: complete_defs handler_defs observer_defs
      split: prod.splits sum.splits fetch_outcome.splits)

lemma complete_post_faults:
  assumes "method req = ''POST''"
  shows
   "(\<forall>e. formData req = Inl e \<longrightarrow>
       fst (handleRequest env req) =
         Inr \<lparr>status = 500,
            body = Some (Stringify (JObj
              [(''success'', JBool False), (''error'', JStr ''Internal server error'')])),
            headers =
              [(''Content-Type'', ''application/json''),
               (''Access-Control-Allow-Origin'', ''*''),
               (''Access-Control-Allow-Methods'', ''POST, OPTIONS''),
               (''Access-Control-Allow-Headers'', allow_headers)]\<rparr>) \<and>
    (\<forall>fd e. formData req = Inr fd \<and> truthy (js_of_form (token_field fd)) \<and>
       verification env (turnstile_request (token_field fd)) = Inl e \<longrightarrow>
       fst (handleRequest env req) =
         Inr \<lparr>status = 500,
            body = Some (Stringify (JObj
              [(''success'', JBool False), (''error'', JStr ''Internal server error'')])),
            headers =
              [(''Content-Type'', ''application/json''),
               (''Access-Control-Allow-Origin'', ''*''),
               (''Access-Control-Allow-Methods'', ''POST, OPTIONS''),
               (''Access-Control-Allow-Headers'', allow_headers)]\<rparr>)"
  using assms
  by (auto simp: complete_unparsable complete_fault jsonResponse_def new_Response_def)

lemma module_post_faults:
  assumes "method req = ''POST''"
  shows
   "(\<forall>e. formData req = Inl e \<longrightarrow>
       fst (fetch_backup env req) = Inl e \<and> fst (fetch_part_000 env req) = Inl e) \<and>
    (\<forall>fd e. formData req = Inr fd \<and>
       verification env (backup_verify_request (TURNSTILE_SECRET env) (token_field fd)) = Inl e \<longrightarrow>
       fst (fetch_backup env req) = Inl e) \<and>
    (\<forall>fd e. formData req = Inr fd \<and>
       verification env (json_verify_request (TURNSTILE_SECRET env) (token_field fd)) = Inl e \<longrightarrow>
       fst (fetch_part_000 env req) = Inl e) \<and>
    (\<forall>fd. formData req = Inr fd \<and>
       accepts env (backup_verify_request (TURNSTILE_SECRET env) (token_field fd)) \<and>
       put_rejects env (email_key fd) (lead_record env fd) \<longrightarrow>
       fst (fetch_backup env req) = Inl StoreError \<and>
       writes env (fetch_backup env req) = [(email_key fd, lead_record env fd)]) \<and>
    (\<forall>fd. formData req = Inr fd \<and>
       accepts env (json_verify_request (TURNSTILE_SECRET env) (token_field fd)) \<and>
       put_rejects env (email_key fd) (lead_record env fd) \<longrightarrow>
       fst (fetch_part_000 env req) = Inl StoreError \<and>
       writes env (fetch_part_000 env req) = [(email_key fd, lead_record env fd)])"
proof (intro conjI allI impI)
  fix e assume "formData req = Inl e"
  with assms show "fst (fetch_backup env req) = Inl e"
    by (simp add: backup_unparsable)
next
  fix e assume "formData req = Inl e"
  with assms show "fst (fetch_part_000 env req) = Inl e"
    by (simp add: part_000_unparsable)
next
  fix fd e
  assume "formData req = Inr fd \<and>
       verification env (backup_verify_request (TURNSTILE_SECRET env) (token_field fd)) = Inl e"
  with assms show "fst (fetch_backup env req) = Inl e"
    by (simp add: backup_fault)
next
  fix fd e
  assume a: "formData req = Inr fd \<and>
       verification env (json_verify_request (TURNSTILE_SECRET env) (token_field fd)) = Inl e"
  from part_000_fault [OF assms, of fd env e] a show "fst (fetch_part_000 env req) = Inl e"
    by auto
next
  fix fd
  assume a: "formData req = Inr fd \<and>
       accepts env (backup_verify_request (TURNSTILE_SECRET env) (token_field fd)) \<and>
       put_rejects env (email_key fd) (lead_record env fd)"
  then obtain v
    where "verification env (backup_verify_request (TURNSTILE_SECRET env) (token_field fd)) = Inr (v, True)"
    by (auto simp: accepts_def split: sum.splits)
  note run = backup_accepted [OF assms _ this refl refl refl refl]
  from run a show "fst (fetch_backup env req) = Inl StoreError"
    by (simp add: email_key_def lead_record_def)
  from run a show "writes env (fetch_backup env req) = [(email_key fd, lead_record env fd)]"
    by (simp add: email_key_def lead_record_def observer_defs)
next
  fix fd
  assume a: "formData req = Inr fd \<and>
       accepts env (json_verify_request (TURNSTILE_SECRET env) (token_field fd)) \<and>
       put_rejects env (email_key fd) (lead_record env fd)"
  then obtain v
    where "verification env (json_verify_request (TURNSTILE_SECRET env) (token_field fd)) = Inr (v, True)"
    by (auto simp: accepts_def split: sum.splits)
  note run = part_000_accepted [OF assms _ this refl refl refl refl]
  from run a show "fst (fetch_part_000 env req) = Inl StoreError"
    by (simp add: email_key_def lead_record_def)
  from run a show "writes env (fetch_part_000 env req) = [(email_key fd, lead_record env fd)]"
    by (simp add: email_key_def lead_record_def observer_defs)
qed

text \<open>
  C2, amended. worker-cors-complete.js answers every request with a response and never
  writes to the store; a POST in which form parsing or the verification (the call, reading
  its JSON reply, reading \<open>success\<close>) throws is answered by \<open>handlePost\<close> with status 500,
  the JSON body \<open>{success: false, error: 'Internal server error'}\<close> and the cross-origin
  headers. backup_worker.js and unnamed/part_000 have no handler for faults: a fault of
  form parsing, of the verification, or of the store write (the store rejecting the one
  \<open>put\<close> of the run) is the result of \<open>fetch\<close>, and no response is built.
\<close>

theorem faults_are_answered_500_by_handlePost_only:
  "(\<exists>r env'. handleRequest env req = (Inr r, env')) \<and>
   writes env (handleRequest env req) = [] \<and>
   WAITLIST_STORAGE (snd (handleRequest env req)) = WAITLIST_STORAGE env \<and>
   (method req = ''POST'' \<longrightarrow>
    (\<forall>e. formData req = Inl e \<longrightarrow>
       fst (handleRequest env req) =
         Inr \<lparr>status = 500,
            body = Some (Stringify (JObj
              [(''success'', JBool False), (''error'', JStr ''Internal server error'')])),
            headers =
              [(''Content-Type'', ''application/json''),
               (''Access-Control-Allow-Origin'', ''*''),
               (''Access-Control-Allow-Methods'', ''POST, OPTIONS''),
               (''Access-Control-Allow-Headers'', allow_headers)]\<rparr>) \<and>
    (\<forall>fd e. formData req = Inr fd \<and> truthy (js_of_form (token_field fd)) \<and>
       verification env (turnstile_request (token_field fd)) = Inl e \<longrightarrow>
       fst (handleRequest env req) =
         Inr \<lparr>status = 500,
            body = Some (Stringify (JObj
              [(''success'', JBool False), (''error'', JStr ''Internal server error'')])),
            headers =
              [(''Content-Type'', ''application/json''),
               (''Access-Control-Allow-Origin'', ''*''),
               (''Access-Control-Allow-Methods'', ''POST, OPTIONS''),
               (''Access-Control-Allow-Headers'', allow_headers)]\<rparr>) \<and>
    (\<forall>e. formData req = Inl e \<longrightarrow>
       fst (fetch_backup env req) = Inl e \<and> fst (fetch_part_000 env req) = Inl e) \<and>
    (\<forall>fd e. formData req = Inr fd \<and>
       verification env (backup_verify_request (TURNSTILE_SECRET env) (token_field fd)) = Inl e \<longrightarrow>
       fst (fetch_backup env req) = Inl e) \<and>
    (\<forall>fd e. formData req = Inr fd \<and>
       verification env (json_verify_request (TURNSTILE_SECRET env) (token_field fd)) = Inl e \<longrightarrow>
       fst (fetch_part_000 env req) = Inl e) \<and>
    (\<forall>fd. formData req = Inr fd \<and>
       accepts env (backup_verify_request (TURNSTILE_SECRET env) (token_field fd)) \<and>
       put_rejects env (email_key fd) (lead_record env fd) \<longrightarrow>
       fst (fetch_backup env req) = Inl StoreError \<and>
       writes env (fetch_backup env req) = [(email_key fd, lead_record env fd)]) \<and>
    (\<forall>fd. formData req = Inr fd \<and>
       accepts env (json_verify_request (TURNSTILE_SECRET env) (token_field fd)) \<and>
       put_rejects env (email_key fd) (lead_record env fd) \<longrightarrow>
       fst (fetch_part_000 env req) = Inl StoreError \<and>
       writes env (fetch_part_000 env req) = [(email_key fd, lead_record env fd)]))"
  using complete_always_responds [of env req] complete_never_writes [of env req]
    complete_post_faults [of req env] module_post_faults [of req env]
  by blast

theorem faults_are_answered_500_by_handlePost_only_witness:
  "method unparsable_post = ''POST'' \<and>
   formData unparsable_post = Inl TypeError \<and>
   status (projr (fst (handleRequest (example_world accepting_service) unparsable_post))) = 500 \<and>
   fst (fetch_backup (example_world accepting_service) unparsable_post) = Inl TypeError \<and>
   method alice_post = ''POST'' \<and>
   truthy (js_of_form (token_field alice_form)) \<and>
   verification (example_world unreachable_service) (turnstile_request (token_field alice_form)) =
     Inl NetworkError \<and>
   status (projr (fst (handleRequest (example_world unreachable_service) alice_post))) = 500 \<and>
   writes (example_world unreachable_service)
     (handleRequest (example_world unreachable_service) alice_post) = [] \<and>
   fst (fetch_part_000 (example_world unreachable_service) alice_post) = Inl NetworkError \<and>
   email_key alice_form = ''lead:alice@example.com'' \<and>
   key_limit_store 16 ''lead:alice@example.com''
     (lead_record ((example_world accepting_service)\<lparr>put_rejects := key_limit_store 16\<rparr>) alice_form) \<and>
   \<not> key_limit_store 16 ''lead:a@b.c''
     (lead_record ((example_world accepting_service)\<lparr>put_rejects := key_limit_store 16\<rparr>) alice_form) \<and>
   fst (fetch_backup ((example_world accepting_service)\<lparr>put_rejects := key_limit_store 16\<rparr>) alice_post) =
     Inl StoreError"
proof -
  let ?w = "(example_world accepting_service)\<lparr>put_rejects := key_limit_store 16\<rparr>"
  have p1: "method unparsable_post = ''POST''" and p2: "method alice_post = ''POST''"
    by (simp_all add: unparsable_post_def alice_post_def)
  have f1: "formData unparsable_post = Inl TypeError" and f2: "formData alice_post = Inr alice_form"
    by (simp_all add: unparsable_post_def alice_post_def)
  have t: "truthy (js_of_form (token_field alice_form))"
    by (simp add: example_defs)
  have v1: "verification (example_world unreachable_service)
      (turnstile_request (token_field alice_form)) = Inl NetworkError"
    by (simp add: example_defs)
  have v2: "verification (example_world unreachable_service)
      (json_verify_request (TURNSTILE_SECRET (example_world unreachable_service))
        (token_field alice_form)) = Inl NetworkError"
    by (simp add: example_defs)
  have v3: "accepts ?w (backup_verify_request (TURNSTILE_SECRET ?w) (token_field alice_form))"
    by (simp add: example_defs accepts_def)
  have k: "email_key alice_form = ''lead:alice@example.com''"
    by (simp add: email_key_def example_defs)
  have r: "put_rejects ?w (email_key alice_form) (lead_record ?w alice_form)"
    and r': "key_limit_store 16 ''lead:alice@example.com'' (lead_record ?w alice_form)"
    and a: "\<not> key_limit_store 16 ''lead:a@b.c'' (lead_record ?w alice_form)"
    by (simp_all add: k key_limit_store_def)
  from faults_are_answered_500_by_handlePost_only [of "example_world accepting_service" unparsable_post]
    faults_are_answered_500_by_handlePost_only [of "example_world unreachable_service" alice_post]
    faults_are_answered_500_by_handlePost_only [of ?w alice_post]
    p1 p2 f1 f2 t v1 v2 v3 k r r' a
  show ?thesis
    by simp
qed

section \<open>Accepted and rejected tokens\<close>

text \<open>
  C3, as stated, fails in two ways. In worker-cors-complete.js an accepted token is
  acknowledged and nothing is written: the \<open>put\<close> is commented out. In backup_worker.js
  an accepted token whose store write is rejected gets no response at all.
\<close>

theorem accepted_post_without_record:
  "method alice_post = ''POST'' \<and>
   accepts (example_world accepting_service) (turnstile_request (token_field alice_form)) \<and>
   status (projr (fst (handleRequest (example_world accepting_service) alice_post))) = 200 \<and>
   writes (example_world accepting_service)
     (handleRequest (example_world accepting_service) alice_post) = [] \<and>
   dom (WAITLIST_STORAGE (snd (handleRequest (example_world accepting_service) alice_post))) = {} \<and>
   accepts ((example_world accepting_service)\<lparr>put_rejects := rejecting_store\<rparr>)
     (backup_verify_request ''0x4AAAAAAA-secret'' (token_field alice_form)) \<and>
   fst (fetch_backup ((example_world accepting_service)\<lparr>put_rejects := rejecting_store\<rparr>) alice_post) =
     Inl StoreError"
  by (simp add: fetch_backup_def complete_defs handler_defs example_defs observer_defs)

text \<open>
  C3, amended. For every POST whose token the verification service accepts:
  backup_worker.js and unnamed/part_000, when the store accepts the write (the one \<open>put\<close>
  of the run, with the key and the record the run builds), return status 200 with the JSON
  body \<open>{success: true, id}\<close>, the identifier non-empty, and write exactly one record,
  whose \<open>email\<close> is the submitted email (what \<open>formData.get\<close> gave);
  worker-cors-complete.js, which sends a token to the service only when it is not empty,
  returns the same acknowledgement and writes nothing.
\<close>

theorem accepted_post_is_acknowledged:
  assumes "method req = ''POST''" and "formData req = Inr fd"
  shows
    "(accepts env (backup_verify_request (TURNSTILE_SECRET env) (token_field fd)) \<and>
      \<not> put_rejects env (email_key fd) (lead_record env fd) \<longrightarrow>
      (\<exists>r env' i rec.
         fetch_backup env req = (Inr r, env') \<and> acknowledges r i \<and> i \<noteq> [] \<and>
         writes env (fetch_backup env req) = [(email_key fd, lead_record env fd)] \<and>
         lead_record env fd = Stringify rec \<and>
         property rec ''email'' = Some (js_of_form (form_get fd ''email'')))) \<and>
     (accepts env (json_verify_request (TURNSTILE_SECRET env) (token_field fd)) \<and>
      \<not> put_rejects env (email_key fd) (lead_record env fd) \<longrightarrow>
      (\<exists>r env' i rec.
         fetch_part_000 env req = (Inr r, env') \<and> acknowledges r i \<and> i \<noteq> [] \<and>
         writes env (fetch_part_000 env req) = [(email_key fd, lead_record env fd)] \<and>
         lead_record env fd = Stringify rec \<and>
         property rec ''email'' = Some (js_of_form (form_get fd ''email'')))) \<and>
     (accepts env (turnstile_request (token_field fd)) \<and> truthy (js_of_form (token_field fd)) \<longrightarrow>
      (\<exists>r env' i.
         handleRequest env req = (Inr r, env') \<and> acknowledges r i \<and> i \<noteq> [] \<and>
         writes env (handleRequest env req) = [] \<and>
         WAITLIST_STORAGE env' = WAITLIST_STORAGE env))"
proof (intro conjI impI)
  assume a: "accepts env (backup_verify_request (TURNSTILE_SECRET env) (token_field fd)) \<and>
      \<not> put_rejects env (email_key fd) (lead_record env fd)"
  then obtain v
    where "verification env (backup_verify_request (TURNSTILE_SECRET env) (token_field fd)) = Inr (v, True)"
    by (auto simp: accepts_def split: sum.splits)
  from backup_accepted [OF assms this refl refl refl refl] a
  show "\<exists>r env' i rec.
         fetch_backup env req = (Inr r, env') \<and> acknowledges r i \<and> i \<noteq> [] \<and>
         writes env (fetch_backup env req) = [(email_key fd, lead_record env fd)] \<and>
         lead_record env fd = Stringify rec \<and>
         property rec ''email'' = Some (js_of_form (form_get fd ''email''))"
    by (simp add: observer_defs email_key_def lead_record_def Rep_uuid_nonempty)
next
  assume a: "accepts env (json_verify_request (TURNSTILE_SECRET env) (token_field fd)) \<and>
      \<not> put_rejects env (email_key fd) (lead_record env fd)"
  then obtain v
    where "verification env (json_verify_request (TURNSTILE_SECRET env) (token_field fd)) = Inr (v, True)"
    by (auto simp: accepts_def split: sum.splits)
  from part_000_accepted [OF assms this refl refl refl refl] a
  show "\<exists>r env' i rec.
         fetch_part_000 env req = (Inr r, env') \<and> acknowledges r i \<and> i \<noteq> [] \<and>
         writes env (fetch_part_000 env req) = [(email_key fd, lead_record env fd)] \<and>
         lead_record env fd = Stringify rec \<and>
         property rec ''email'' = Some (js_of_form (form_get fd ''email''))"
    by (simp add: observer_defs email_key_def lead_record_def Rep_uuid_nonempty)
next
  assume a: "accepts env (turnstile_request (token_field fd)) \<and> truthy (js_of_form (token_field fd))"
  then obtain v
    where "verification env (turnstile_request (token_field fd)) = Inr (v, True)"
    by (auto simp: accepts_def split: sum.splits)
  from complete_accepted [OF assms _ this refl] a
  show "\<exists>r env' i.
         handleRequest env req = (Inr r, env') \<and> acknowledges r i \<and> i \<noteq> [] \<and>
         writes env (handleRequest env req) = [] \<and>
         WAITLIST_STORAGE env' = WAITLIST_STORAGE env"
    by (simp add: observer_defs Rep_uuid_nonempty)
qed

text \<open>
  The witness runs unnamed/part_000 against a store with a limit: it rejects keys of more
  than 512 characters, and accepts the \<open>put\<close> of this run.
\<close>

theorem accepted_post_is_acknowledged_witness:
  "method alice_post = ''POST'' \<and> formData alice_post = Inr alice_form \<and>
   accepts ((example_world accepting_service)\<lparr>put_rejects := key_limit_store 512\<rparr>)
     (json_verify_request ''0x4AAAAAAA-secret'' (token_field alice_form)) \<and>
   key_limit_store 512 (replicate 513 CHR ''x'') (Plain []) \<and>
   \<not> key_limit_store 512 (email_key alice_form)
       (lead_record ((example_world accepting_service)\<lparr>put_rejects := key_limit_store 512\<rparr>) alice_form) \<and>
   (\<exists>r env' i rec.
      fetch_part_000 ((example_world accepting_service)\<lparr>put_rejects := key_limit_store 512\<rparr>) alice_post =
        (Inr r, env') \<and>
      acknowledges r i \<and> i \<noteq> [] \<and>
      writes ((example_world accepting_service)\<lparr>put_rejects := key_limit_store 512\<rparr>)
        (fetch_part_000 ((example_world accepting_service)\<lparr>put_rejects := key_limit_store 512\<rparr>) alice_post) =
        [(''lead:alice@example.com'', Stringify rec)] \<and>
      property rec ''email'' = Some (JStr ''alice@example.com''))"
proof -
  let ?w = "(example_world accepting_service)\<lparr>put_rejects := key_limit_store 512\<rparr>"
  have p: "method alice_post = ''POST''" and f: "formData alice_post = Inr alice_form"
    by (simp_all add: alice_post_def)
  have s: "TURNSTILE_SECRET ?w = ''0x4AAAAAAA-secret''"
    by (simp add: example_world_def)
  have a: "accepts ?w (json_verify_request (TURNSTILE_SECRET ?w) (token_field alice_form))"
    by (simp add: example_defs accepts_def)
  have k: "email_key alice_form = ''lead:alice@example.com''"
    by (simp add: email_key_def example_defs)
  have l: "key_limit_store 512 (replicate 513 CHR ''x'') (Plain [])"
    by (simp add: key_limit_store_def)
  have n: "\<not> put_rejects ?w (email_key alice_form) (lead_record ?w alice_form)"
    and n': "\<not> key_limit_store 512 (email_key alice_form) (lead_record ?w alice_form)"
    by (simp_all add: k key_limit_store_def)
  have e: "js_of_form (form_get alice_form ''email'') = JStr ''alice@example.com''"
    by (simp add: example_defs)
  from accepted_post_is_acknowledged [OF p f, of ?w] a n
  have "\<exists>r env' i rec.
         fetch_part_000 ?w alice_post = (Inr r, env') \<and> acknowledges r i \<and> i \<noteq> [] \<and>
         writes ?w (fetch_part_000 ?w alice_post) = [(email_key alice_form, lead_record ?w alice_form)] \<and>
         lead_record ?w alice_form = Stringify rec \<and>
         property rec ''email'' = Some (js_of_form (form_get alice_form ''email''))"
    by blast
  then have "\<exists>r env' i rec.
      fetch_part_000 ?w alice_post = (Inr r, env') \<and> acknowledges r i \<and> i \<noteq> [] \<and>
      writes ?w (fetch_part_000 ?w alice_post) = [(''lead:alice@example.com'', Stringify rec)] \<and>
      property rec ''email'' = Some (JStr ''alice@example.com'')"
    unfolding k e by metis
  with p f a s l n' show ?thesis
    by simp
qed

text \<open>
  C4, as stated, fails on two drafts. unnamed/part_000 puts the verification service's
  whole reply, error codes included, into the body under \<open>details\<close>. backup_worker.js
  answers with the plain text \<open>Bot detected\<close> and no header.
\<close>

theorem rejected_post_leaks_details_or_lacks_header:
  "method alice_post = ''POST'' \<and>
   rejects (example_world rejecting_service)
     (json_verify_request ''0x4AAAAAAA-secret'' (token_field alice_form)) \<and>
   json_body (projr (fst (fetch_part_000 (example_world rejecting_service) alice_post))) =
     Some (JObj
       [(''success'', JBool False),
        (''error'', JStr ''Turnstile verification failed''),
        (''details'', JObj
           [(''success'', JBool False),
            (''error-codes'', JArr [JStr ''invalid-input-secret''])])]) \<and>
   rejects (example_world rejecting_service)
     (backup_verify_request ''0x4AAAAAAA-secret'' (token_field alice_form)) \<and>
   fst (fetch_backup (example_world rejecting_service) alice_post) =
     Inr \<lparr>status = 403, body = Some (Plain ''Bot detected''), headers = []\<rparr>"
  by (simp add: fetch_backup_def fetch_part_000_def handler_defs example_defs observer_defs)

text \<open>
  C4, amended. For every POST whose token the verification service rejects, the handler
  responds with status 403 and performs no storage write, and what it tells the caller
  of its own is fixed: it never includes the secret. In backup_worker.js the whole
  response is one fixed reply, the same for every secret, every form and every reply of
  the verification service. In the worker of config.example.js the response is the JSON
  body \<open>{success: false, error: 'Turnstile verification failed'}\<close> with the cross-origin
  header. In unnamed/part_000 the JSON body has the same fixed message and, under
  \<open>details\<close>, the reply of the verification service as received, with the same headers.
\<close>

theorem rejected_post_is_answered_403_without_write:
  assumes "method req = ''POST''" and "formData req = Inr fd"
  shows
    "(rejects env (backup_verify_request (TURNSTILE_SECRET env) (token_field fd)) \<longrightarrow>
      (\<exists>r. fst (fetch_backup env req) = Inr r \<and> status r = 403) \<and>
      (\<forall>env2 req2 fd2.
          method req2 = ''POST'' \<and> formData req2 = Inr fd2 \<and>
          rejects env2 (backup_verify_request (TURNSTILE_SECRET env2) (token_field fd2)) \<longrightarrow>
          fst (fetch_backup env2 req2) = fst (fetch_backup env req)) \<and>
      writes env (fetch_backup env req) = [] \<and>
      WAITLIST_STORAGE (snd (fetch_backup env req)) = WAITLIST_STORAGE env) \<and>
     (\<forall>v. verification env (json_verify_request (TURNSTILE_SECRET env) (token_field fd)) = Inr (v, False) \<longrightarrow>
      fst (fetch_part_000 env req) =
        Inr \<lparr>status = 403,
           body = Some (Stringify (JObj
             [(''success'', JBool False),
              (''error'', JStr ''Turnstile verification failed''),
              (''details'', v)])),
           headers = [(''Content-Type'', ''application/json''), (''Access-Control-Allow-Origin'', ''*'')]\<rparr> \<and>
      writes env (fetch_part_000 env req) = [] \<and>
      WAITLIST_STORAGE (snd (fetch_part_000 env req)) = WAITLIST_STORAGE env) \<and>
     (rejects env (json_verify_request (TURNSTILE_SECRET env) (token_field fd)) \<longrightarrow>
      fst (fetch_config env req) =
        Inr \<lparr>status = 403,
           body = Some (Stringify (JObj
             [(''success'', JBool False),
              (''error'', JStr ''Turnstile verification failed'')])),
           headers = [(''Content-Type'', ''application/json''), (''Access-Control-Allow-Origin'', ''*'')]\<rparr> \<and>
      writes env (fetch_config env req) = [] \<and>
      WAITLIST_STORAGE (snd (fetch_config env req)) = WAITLIST_STORAGE env)"
proof (intro conjI allI impI)
  assume "rejects env (backup_verify_request (TURNSTILE_SECRET env) (token_field fd))"
  then obtain v
    where "verification env (backup_verify_request (TURNSTILE_SECRET env) (token_field fd)) = Inr (v, False)"
    by (auto simp: rejects_def split: sum.splits)
  note run = backup_rejected [OF assms this]
  show "\<exists>r. fst (fetch_backup env req) = Inr r \<and> status r = 403"
    and "writes env (fetch_backup env req) = []"
    and "WAITLIST_STORAGE (snd (fetch_backup env req)) = WAITLIST_STORAGE env"
    by (simp_all add: run observer_defs)
  fix env2 :: world and req2 :: request and fd2 :: form
  assume other: "method req2 = ''POST'' \<and> formData req2 = Inr fd2 \<and>
          rejects env2 (backup_verify_request (TURNSTILE_SECRET env2) (token_field fd2))"
  then obtain v2
    where "verification env2 (backup_verify_request (TURNSTILE_SECRET env2) (token_field fd2)) = Inr (v2, False)"
    by (auto simp: rejects_def split: sum.splits)
  from backup_rejected [OF _ _ this] other
  show "fst (fetch_backup env2 req2) = fst (fetch_backup env req)"
    by (simp add: run)
next
  fix v
  assume "verification env (json_verify_request (TURNSTILE_SECRET env) (token_field fd)) = Inr (v, False)"
  note run = part_000_rejected [OF assms this]
  show "fst (fetch_part_000 env req) =
        Inr \<lparr>status = 403,
           body = Some (Stringify (JObj
             [(''success'', JBool False),
              (''error'', JStr ''Turnstile verification failed''),
              (''details'', v)])),
           headers = [(''Content-Type'', ''application/json''), (''Access-Control-Allow-Origin'', ''*'')]\<rparr>"
    and "writes env (fetch_part_000 env req) = []"
    and "WAITLIST_STORAGE (snd (fetch_part_000 env req)) = WAITLIST_STORAGE env"
    by (simp_all add: run observer_defs)
next
  assume "rejects env (json_verify_request (TURNSTILE_SECRET env) (token_field fd))"
  then obtain v
    where "verification env (json_verify_request (TURNSTILE_SECRET env) (token_field fd)) = Inr (v, False)"
    by (auto simp: rejects_def split: sum.splits)
  note run = config_rejected [OF assms this]
  show "fst (fetch_config env req) =
        Inr \<lparr>status = 403,
           body = Some (Stringify (JObj
             [(''success'', JBool False),
              (''error'', JStr ''Turnstile verification failed'')])),
           headers = [(''Content-Type'', ''application/json''), (''Access-Control-Allow-Origin'', ''*'')]\<rparr>"
    and "writes env (fetch_config env req) = []"
    and "WAITLIST_STORAGE (snd (fetch_config env req)) = WAITLIST_STORAGE env"
    by (simp_all add: run observer_defs)
qed

text \<open>
  The witness rejects the same submission in two worlds that differ in the secret and in
  the service's reply: backup_worker.js gives the same response in both.
\<close>

theorem rejected_post_is_answered_403_without_write_witness:
  "method alice_post = ''POST'' \<and> formData alice_post = Inr alice_form \<and>
   rejects (example_world rejecting_service)
     (json_verify_request (TURNSTILE_SECRET (example_world rejecting_service)) (token_field alice_form)) \<and>
   fst (fetch_config (example_world rejecting_service) alice_post) =
     Inr \<lparr>status = 403,
        body = Some (Stringify (JObj
          [(''success'', JBool False),
           (''error'', JStr ''Turnstile verification failed'')])),
        headers = [(''Content-Type'', ''application/json''), (''Access-Control-Allow-Origin'', ''*'')]\<rparr> \<and>
   writes (example_world rejecting_service)
     (fetch_config (example_world rejecting_service) alice_post) = [] \<and>
   rejects (example_world rejecting_service)
     (backup_verify_request ''0x4AAAAAAA-secret'' (token_field alice_form)) \<and>
   rejects (example_world silent_service\<lparr>TURNSTILE_SECRET := ''another-secret''\<rparr>)
     (backup_verify_request ''another-secret'' (token_field alice_form)) \<and>
   fst (fetch_backup (example_world silent_service\<lparr>TURNSTILE_SECRET := ''another-secret''\<rparr>) alice_post) =
     fst (fetch_backup (example_world rejecting_service) alice_post) \<and>
   writes (example_world rejecting_service)
     (fetch_backup (example_world rejecting_service) alice_post) = []"
proof -
  let ?w = "example_world rejecting_service"
  let ?w2 = "example_world silent_service\<lparr>TURNSTILE_SECRET := ''another-secret''\<rparr>"
  have p: "method alice_post = ''POST''" and f: "formData alice_post = Inr alice_form"
    by (simp_all add: alice_post_def)
  have r: "rejects ?w (json_verify_request (TURNSTILE_SECRET ?w) (token_field alice_form))"
    by (simp add: example_defs rejects_def)
  have s: "TURNSTILE_SECRET ?w = ''0x4AAAAAAA-secret''" and s2: "TURNSTILE_SECRET ?w2 = ''another-secret''"
    by (simp_all add: example_world_def)
  have b: "rejects ?w (backup_verify_request (TURNSTILE_SECRET ?w) (token_field alice_form))"
    by (simp add: example_defs rejects_def)
  have b2: "rejects ?w2 (backup_verify_request (TURNSTILE_SECRET ?w2) (token_field alice_form))"
    by (simp add: example_defs silent_service_def rejects_def)
  from rejected_post_is_answered_403_without_write [OF p f, of ?w] r b b2 p f
  have "fst (fetch_config ?w alice_post) =
     Inr \<lparr>status = 403,
        body = Some (Stringify (JObj
          [(''success'', JBool False),
           (''error'', JStr ''Turnstile verification failed'')])),
        headers = [(''Content-Type'', ''application/json''), (''Access-Control-Allow-Origin'', ''*'')]\<rparr>"
    and "writes ?w (fetch_config ?w alice_post) = []"
    and "fst (fetch_backup ?w2 alice_post) = fst (fetch_backup ?w alice_post)"
    and "writes ?w (fetch_backup ?w alice_post) = []"
    by blast+
  with p f r b b2 show ?thesis
    unfolding s s2 by simp
qed

section \<open>The operations of one POST\<close>

text \<open>
  C7, as stated, fails when the form does not parse: \<open>request.formData()\<close> throws before
  the verification call, and the run makes no outbound call at all.
\<close>

theorem unparsable_post_makes_no_call:
  "method unparsable_post = ''POST'' \<and>
   outbound_calls (new_events (example_world accepting_service)
     (snd (fetch_backup (example_world accepting_service) unparsable_post))) = [] \<and>
   outbound_calls (new_events (example_world accepting_service)
     (snd (fetch_part_000 (example_world accepting_service) unparsable_post))) = []"
  by (simp add: fetch_backup_def fetch_part_000_def example_defs new_events_def)

text \<open>
  C7, amended. For every POST request whose body parses as form data, the handler makes
  exactly one outbound call, to the verification service, then zero or one write to the
  key-value store, and no other network or storage operation (unnamed/part_000 also
  writes console lines); for a POST whose body does not parse it makes no call and no
  write.
\<close>

theorem post_makes_one_call_and_at_most_one_write:
  assumes "method req = ''POST''"
  shows
    "(\<forall>fd. formData req = Inr fd \<longrightarrow>
        one_call_then_at_most_one_write
          (backup_verify_request (TURNSTILE_SECRET env) (token_field fd))
          (new_events env (snd (fetch_backup env req))) \<and>
        one_call_then_at_most_one_write
          (json_verify_request (TURNSTILE_SECRET env) (token_field fd))
          (external_io (new_events env (snd (fetch_part_000 env req))))) \<and>
     (\<forall>e. formData req = Inl e \<longrightarrow>
        new_events env (snd (fetch_backup env req)) = [] \<and>
        new_events env (snd (fetch_part_000 env req)) = [])"
proof (intro conjI allI impI)
  fix fd assume fd: "formData req = Inr fd"
  show "one_call_then_at_most_one_write
          (backup_verify_request (TURNSTILE_SECRET env) (token_field fd))
          (new_events env (snd (fetch_backup env req)))"
  proof (cases rule: post_cases [where req = req and env = env and mk = backup_verify_request])
    case (unparsable e)
    with fd show ?thesis by simp
  next
    case (fault fd' e)
    with fd assms show ?thesis
      by (simp add: backup_fault new_events_def)
  next
    case (rejected fd' v)
    with fd assms show ?thesis
      by (simp add: backup_rejected new_events_def)
  next
    case (accepted fd' v)
    with fd have "verification env (backup_verify_request (TURNSTILE_SECRET env) (token_field fd)) =
        Inr (v, True)"
      by simp
    from backup_accepted [OF assms fd this refl refl refl refl] show ?thesis
      by (simp add: new_events_def)
  qed
next
  fix fd assume fd: "formData req = Inr fd"
  show "one_call_then_at_most_one_write
          (json_verify_request (TURNSTILE_SECRET env) (token_field fd))
          (external_io (new_events env (snd (fetch_part_000 env req))))"
  proof (cases rule: post_cases [where req = req and env = env and mk = json_verify_request])
    case (unparsable e)
    with fd show ?thesis by simp
  next
    case (fault fd' e)
    with fd have "verification env (json_verify_request (TURNSTILE_SECRET env) (token_field fd)) =
        Inl e"
      by simp
    from part_000_fault [OF assms fd this] show ?thesis
      by (auto simp: new_events_def)
  next
    case (rejected fd' v)
    with fd assms show ?thesis
      by (simp add: part_000_rejected new_events_def)
  next
    case (accepted fd' v)
    with fd have "verification env (json_verify_request (TURNSTILE_SECRET env) (token_field fd)) =
        Inr (v, True)"
      by simp
    from part_000_accepted [OF assms fd this refl refl refl refl] show ?thesis
      by (simp add: new_events_def)
  qed
next
  fix e assume "formData req = Inl e"
  with assms show "new_events env (snd (fetch_backup env req)) = []"
    by (simp add: backup_unparsable new_events_def)
next
  fix e assume "formData req = Inl e"
  with assms show "new_events env (snd (fetch_part_000 env req)) = []"
    by (simp add: part_000_unparsable new_events_def)
qed

theorem post_makes_one_call_and_at_most_one_write_witness:
  "method alice_post = ''POST'' \<and> formData alice_post = Inr alice_form \<and>
   one_call_then_at_most_one_write
     (backup_verify_request ''0x4AAAAAAA-secret'' (Some (FormString ''token-1'')))
     (new_events (example_world accepting_service)
       (snd (fetch_backup (example_world accepting_service) alice_post))) \<and>
   one_call_then_at_most_one_write
     (json_verify_request ''0x4AAAAAAA-secret'' (Some (FormString ''token-1'')))
     (external_io (new_events (example_world rejecting_service)
       (snd (fetch_part_000 (example_world rejecting_service) alice_post))))"
proof -
  have p: "method alice_post = ''POST''" and f: "formData alice_post = Inr alice_form"
    by (simp_all add: alice_post_def)
  have t: "token_field alice_form = Some (FormString ''token-1'')"
    by (simp add: example_defs)
  from post_makes_one_call_and_at_most_one_write [OF p, of "example_world accepting_service"]
    post_makes_one_call_and_at_most_one_write [OF p, of "example_world rejecting_service"]
    p f t
  show ?thesis
    by (simp add: example_world_def)
qed

section \<open>Successful submissions\<close>

text \<open>
  A POST answered with status 200 went down the accepted path and its write was accepted;
  the lemmas below read the response, the record and the world after it off that path.
\<close>

lemma backup_success:
  assumes "method req = ''POST''" and "fetch_backup env req = (Inr r, env')" and "status r = 200"
  shows "\<exists>fd rec.
    formData req = Inr fd \<and>
    rec = [(''email'', js_of_form (form_get fd ''email'')),
           (''timestamp'', JStr (clock env)),
           (''id'', JStr (Rep_uuid (uuid_supply env (uuids_drawn env))))] \<and>
    acknowledges r (Rep_uuid (uuid_supply env (uuids_drawn env))) \<and>
    writes env (fetch_backup env req) =
      [(''lead:'' @ template (form_get fd ''email''), Stringify (JObj rec))] \<and>
    WAITLIST_STORAGE env' (''lead:'' @ template (form_get fd ''email'')) = Some (Stringify (JObj rec)) \<and>
    uuid_supply env' = uuid_supply env \<and> uuids_drawn env' = Suc (uuids_drawn env)"
proof (cases rule: post_cases [where req = req and env = env and mk = backup_verify_request])
  case (unparsable e)
  with assms show ?thesis by (simp add: backup_unparsable)
next
  case (fault fd e)
  with assms show ?thesis by (simp add: backup_fault)
next
  case (rejected fd v)
  with assms show ?thesis by (auto simp: backup_rejected)
next
  case (accepted fd v)
  from backup_accepted [OF assms(1) accepted refl refl refl refl] assms(2,3) accepted(1)
  show ?thesis
    by (auto simp: observer_defs split: if_splits)
qed

lemma part_000_success:
  assumes "method req = ''POST''" and "fetch_part_000 env req = (Inr r, env')" and "status r = 200"
  shows "\<exists>fd rec.
    formData req = Inr fd \<and>
    rec = [(''email'', js_of_form (form_get fd ''email'')),
           (''timestamp'', JStr (clock env)),
           (''id'', JStr (Rep_uuid (uuid_supply env (uuids_drawn env))))] \<and>
    acknowledges r (Rep_uuid (uuid_supply env (uuids_drawn env))) \<and>
    writes env (fetch_part_000 env req) =
      [(''lead:'' @ template (form_get fd ''email''), Stringify (JObj rec))] \<and>
    WAITLIST_STORAGE env' (''lead:'' @ template (form_get fd ''email'')) = Some (Stringify (JObj rec)) \<and>
    uuid_supply env' = uuid_supply env \<and> uuids_drawn env' = Suc (uuids_drawn env)"
proof (cases rule: post_cases [where req = req and env = env and mk = json_verify_request])
  case (unparsable e)
  with assms show ?thesis by (simp add: part_000_unparsable)
next
  case (fault fd e)
  from part_000_fault [OF assms(1) fault] assms(2) show ?thesis by auto
next
  case (rejected fd v)
  with assms show ?thesis by (auto simp: part_000_rejected)
next
  case (accepted fd v)
  from part_000_accepted [OF assms(1) accepted refl refl refl refl] assms(2,3) accepted(1)
  show ?thesis
    by (auto simp: observer_defs split: if_splits)
qed

lemma config_success:
  assumes "method req = ''POST''" and "fetch_config env req = (Inr r, env')" and "status r = 200"
  shows "\<exists>fd rec.
    formData req = Inr fd \<and>
    rec = [(''email'', js_of_form (form_get fd ''email'')),
           (''company'', js_of_form (form_get fd ''company'')),
           (''timestamp'', JStr (clock env)),
           (''id'', JStr (Rep_uuid (uuid_supply env (uuids_drawn env))))] \<and>
    acknowledges r (Rep_uuid (uuid_supply env (uuids_drawn env))) \<and>
    writes env (fetch_config env req) =
      [(Rep_uuid (uuid_supply env (uuids_drawn env)), Stringify (JObj rec))] \<and>
    WAITLIST_STORAGE env' (Rep_uuid (uuid_supply env (uuids_drawn env))) = Some (Stringify (JObj rec)) \<and>
    uuid_supply env' = uuid_supply env \<and> uuids_drawn env' = Suc (uuids_drawn env)"
proof (cases rule: post_cases [where req = req and env = env and mk = json_verify_request])
  case (unparsable e)
  with assms show ?thesis by (simp add: config_unparsable)
next
  case (fault fd e)
  with assms show ?thesis by (simp add: config_fault)
next
  case (rejected fd v)
  with assms show ?thesis by (auto simp: config_rejected)
next
  case (accepted fd v)
  from config_accepted [OF assms(1) accepted refl refl refl] assms(2,3) accepted(1)
  show ?thesis
    by (auto simp: observer_defs split: if_splits)
qed

lemma first_uuid_neq_second_uuid: "first_uuid \<noteq> second_uuid"
  by (simp add: first_uuid_def second_uuid_def Abs_uuid_inject)










section \<open>The stored record\<close>

lemma form_get_skips_company:
  assumes "name \<noteq> ''company''"
  shows "form_get (xs @ (''company'', c) # ys) name = form_get (xs @ ys) name"
  using assms by (induction xs) (auto simp: form_get_def)

text \<open>
  C9. In the two handlers that key the store by email, backup_worker.js and
  unnamed/part_000, a \<open>company\<close> form field is never read and never persisted. For every
  successful POST the run writes one record, under the key \<open>lead:\<close> followed by the
  email, and its fields are exactly \<open>email\<close>, \<open>timestamp\<close> and \<open>id\<close>; and a run on a
  form with a \<open>company\<close> field, wherever it stands in the form, is the run on the form
  without it: same result, same trace, same store.
\<close>

theorem company_is_neither_read_nor_stored:
  assumes "method req = ''POST''"
  shows
    "(\<forall>r env'. fetch_backup env req = (Inr r, env') \<and> status r = 200 \<longrightarrow>
        (\<exists>fd rec.
           formData req = Inr fd \<and>
           writes env (fetch_backup env req) =
             [(''lead:'' @ template (form_get fd ''email''), Stringify (JObj rec))] \<and>
           map fst rec = [''email'', ''timestamp'', ''id''])) \<and>
     (\<forall>r env'. fetch_part_000 env req = (Inr r, env') \<and> status r = 200 \<longrightarrow>
        (\<exists>fd rec.
           formData req = Inr fd \<and>
           writes env (fetch_part_000 env req) =
             [(''lead:'' @ template (form_get fd ''email''), Stringify (JObj rec))] \<and>
           map fst rec = [''email'', ''timestamp'', ''id''])) \<and>
     (\<forall>xs ys c.
        fetch_backup env (req\<lparr>formData := Inr (xs @ (''company'', c) # ys)\<rparr>) =
        fetch_backup env (req\<lparr>formData := Inr (xs @ ys)\<rparr>)) \<and>
     (\<forall>xs ys c.
        fetch_part_000 env (req\<lparr>formData := Inr (xs @ (''company'', c) # ys)\<rparr>) =
        fetch_part_000 env (req\<lparr>formData := Inr (xs @ ys)\<rparr>))"
proof (intro conjI allI impI)
  fix r env'
  assume "fetch_backup env req = (Inr r, env') \<and> status r = 200"
  with backup_success [OF assms, of env r env']
  show "\<exists>fd rec.
           formData req = Inr fd \<and>
           writes env (fetch_backup env req) =
             [(''lead:'' @ template (form_get fd ''email''), Stringify (JObj rec))] \<and>
           map fst rec = [''email'', ''timestamp'', ''id'']"
    by auto
next
  fix r env'
  assume "fetch_part_000 env req = (Inr r, env') \<and> status r = 200"
  with part_000_success [OF assms, of env r env']
  show "\<exists>fd rec.
           formData req = Inr fd \<and>
           writes env (fetch_part_000 env req) =
             [(''lead:'' @ template (form_get fd ''email''), Stringify (JObj rec))] \<and>
           map fst rec = [''email'', ''timestamp'', ''id'']"
    by auto
next
  fix xs ys c
  show "fetch_backup env (req\<lparr>formData := Inr (xs @ (''company'', c) # ys)\<rparr>) =
        fetch_backup env (req\<lparr>formData := Inr (xs @ ys)\<rparr>)"
    by (simp add: fetch_backup_def form_get_skips_company)
next
  fix xs ys c
  show "fetch_part_000 env (req\<lparr>formData := Inr (xs @ (''company'', c) # ys)\<rparr>) =
        fetch_part_000 env (req\<lparr>formData := Inr (xs @ ys)\<rparr>)"
    by (simp add: fetch_part_000_def form_get_skips_company)
qed

theorem company_is_neither_read_nor_stored_witness:
  "method alice_post = ''POST'' \<and>
   form_get alice_form ''company'' = Some (FormString ''Example Ltd'') \<and>
   status (projr (fst (fetch_backup (example_world accepting_service) alice_post))) = 200 \<and>
   (\<exists>rec.
      writes (example_world accepting_service)
        (fetch_backup (example_world accepting_service) alice_post) =
        [(''lead:alice@example.com'', Stringify (JObj rec))] \<and>
      map fst rec = [''email'', ''timestamp'', ''id''])"
proof -
  let ?w = "example_world accepting_service"
  have p: "method alice_post = ''POST''" and f: "formData alice_post = Inr alice_form"
    by (simp_all add: alice_post_def)
  have c: "form_get alice_form ''company'' = Some (FormString ''Example Ltd'')"
    and e: "template (form_get alice_form ''email'') = ''alice@example.com''"
    by (simp_all add: example_defs)
  have s: "status (projr (fst (fetch_backup ?w alice_post))) = 200"
    and i: "isl (fst (fetch_backup ?w alice_post)) = False"
    by (simp_all add: fetch_backup_def handler_defs example_defs)
  have run: "fetch_backup ?w alice_post =
      (Inr (projr (fst (fetch_backup ?w alice_post))), snd (fetch_backup ?w alice_post))"
    using i by (cases "fetch_backup ?w alice_post"; cases "fst (fetch_backup ?w alice_post)") auto
  from company_is_neither_read_nor_stored [OF p, of ?w] run s
  have "\<exists>fd rec.
           formData alice_post = Inr fd \<and>
           writes ?w (fetch_backup ?w alice_post) =
             [(''lead:'' @ template (form_get fd ''email''), Stringify (JObj rec))] \<and>
           map fst rec = [''email'', ''timestamp'', ''id'']"
    by blast
  with f e have "\<exists>rec.
      writes ?w (fetch_backup ?w alice_post) = [(''lead:alice@example.com'', Stringify (JObj rec))] \<and>
      map fst rec = [''email'', ''timestamp'', ''id'']"
    by auto
  with p c s show ?thesis
    by simp
qed

text \<open>
  C10. For every successful POST, in backup_worker.js, unnamed/part_000 and the worker of
  config.example.js, the identifier in the response body's \<open>id\<close> is the identifier in the
  \<open>id\<close> of the one record the run writes, and of the record then in the store.
\<close>

theorem response_and_record_carry_the_same_id:
  assumes "method req = ''POST''"
  shows
    "(\<forall>r env'. fetch_backup env req = (Inr r, env') \<and> status r = 200 \<longrightarrow>
        (\<exists>i k rec.
           json_body r = Some (JObj [(''success'', JBool True), (''id'', JStr i)]) \<and>
           writes env (fetch_backup env req) = [(k, Stringify rec)] \<and>
           property rec ''id'' = Some (JStr i) \<and>
           WAITLIST_STORAGE env' k = Some (Stringify rec))) \<and>
     (\<forall>r env'. fetch_part_000 env req = (Inr r, env') \<and> status r = 200 \<longrightarrow>
        (\<exists>i k rec.
           json_body r = Some (JObj [(''success'', JBool True), (''id'', JStr i)]) \<and>
           writes env (fetch_part_000 env req) = [(k, Stringify rec)] \<and>
           property rec ''id'' = Some (JStr i) \<and>
           WAITLIST_STORAGE env' k = Some (Stringify rec))) \<and>
     (\<forall>r env'. fetch_config env req = (Inr r, env') \<and> status r = 200 \<longrightarrow>
        (\<exists>i k rec.
           json_body r = Some (JObj [(''success'', JBool True), (''id'', JStr i)]) \<and>
           writes env (fetch_config env req) = [(k, Stringify rec)] \<and>
           property rec ''id'' = Some (JStr i) \<and>
           WAITLIST_STORAGE env' k = Some (Stringify rec)))"
proof (intro conjI allI impI)
  fix r env'
  assume "fetch_backup env req = (Inr r, env') \<and> status r = 200"
  with backup_success [OF assms, of env r env']
  show "\<exists>i k rec.
           json_body r = Some (JObj [(''success'', JBool True), (''id'', JStr i)]) \<and>
           writes env (fetch_backup env req) = [(k, Stringify rec)] \<and>
           property rec ''id'' = Some (JStr i) \<and>
           WAITLIST_STORAGE env' k = Some (Stringify rec)"
    by (auto simp: acknowledges_def)
next
  fix r env'
  assume "fetch_part_000 env req = (Inr r, env') \<and> status r = 200"
  with part_000_success [OF assms, of env r env']
  show "\<exists>i k rec.
           json_body r = Some (JObj [(''success'', JBool True), (''id'', JStr i)]) \<and>
           writes env (fetch_part_000 env req) = [(k, Stringify rec)] \<and>
           property rec ''id'' = Some (JStr i) \<and>
           WAITLIST_STORAGE env' k = Some (Stringify rec)"
    by (auto simp: acknowledges_def)
next
  fix r env'
  assume "fetch_config env req = (Inr r, env') \<and> status r = 200"
  with config_success [OF assms, of env r env']
  show "\<exists>i k rec.
           json_body r = Some (JObj [(''success'', JBool True), (''id'', JStr i)]) \<and>
           writes env (fetch_config env req) = [(k, Stringify rec)] \<and>
           property rec ''id'' = Some (JStr i) \<and>
           WAITLIST_STORAGE env' k = Some (Stringify rec)"
    by (auto simp: acknowledges_def)
qed

theorem response_and_record_carry_the_same_id_witness:
  "method alice_post = ''POST'' \<and>
   status (projr (fst (fetch_config (example_world accepting_service) alice_post))) = 200 \<and>
   (\<exists>i k rec.
      json_body (projr (fst (fetch_config (example_world accepting_service) alice_post))) =
        Some (JObj [(''success'', JBool True), (''id'', JStr i)]) \<and>
      writes (example_world accepting_service)
        (fetch_config (example_world accepting_service) alice_post) = [(k, Stringify rec)] \<and>
      property rec ''id'' = Some (JStr i))"
proof -
  let ?w = "example_world accepting_service"
  have p: "method alice_post = ''POST''"
    by (simp add: alice_post_def)
  have s: "status (projr (fst (fetch_config ?w alice_post))) = 200"
    and i: "isl (fst (fetch_config ?w alice_post)) = False"
    by (simp_all add: fetch_config_def handler_defs example_defs)
  have run: "fetch_config ?w alice_post =
      (Inr (projr (fst (fetch_config ?w alice_post))), snd (fetch_config ?w alice_post))"
    using i by (cases "fetch_config ?w alice_post"; cases "fst (fetch_config ?w alice_post)") auto
  from response_and_record_carry_the_same_id [OF p, of ?w] run s
  have "\<exists>i k rec.
      json_body (projr (fst (fetch_config ?w alice_post))) =
        Some (JObj [(''success'', JBool True), (''id'', JStr i)]) \<and>
      writes ?w (fetch_config ?w alice_post) = [(k, Stringify rec)] \<and>
      property rec ''id'' = Some (JStr i)"
    by blast
  with p s show ?thesis
    by simp
qed

end
